theory Spec2Isabelle
  imports Complex_Main "HOL-Library.AList"
begin

section \<open>Species, keys and values\<close>

text \<open>
  Modelled from the spec: the classes \<open>Element\<close> and \<open>Isotope\<close> of \<open>cherab.core\<close> are
  imported by \<open>openadas.py\<close> and are not part of it. The resolver reads three things of
  them: \<open>isinstance(ion, Isotope)\<close>, \<open>ion.element\<close> (the parent Element of an Isotope) and
  \<open>ion.symbol\<close>. A species is an Element, or an Isotope that carries its parent Element
  and a mass number.
\<close>

datatype element = Element (element_symbol: string)

datatype species =
    Elem element
  | Isotope (isotope_symbol: string) (isotope_element: element) (mass_number: nat)

fun symbol :: "species \<Rightarrow> string" where
  "symbol (Elem e) = element_symbol e"
| "symbol (Isotope s e m) = s"

text \<open>
  The idiom \<open>if isinstance(ion, Isotope): ion = ion.element\<close>, which the source repeats
  under the comment "extract element from isotope".
\<close>

fun extract_element :: "species \<Rightarrow> species" where
  "extract_element (Isotope s e m) = Elem e"
| "extract_element (Elem e) = Elem e"

text \<open>
  Dictionary keys: the category names (strings), species, ionisation stages (integers),
  transitions and metastable levels (opaque; tuples of integers or strings in practice).
\<close>

datatype key =
    KStr string
  | KInt int
  | KSpecies species
  | KTuple "key list"

text \<open>
  Python values as the configuration holds them. A dictionary is an object with an
  identity: the value is its address in the store. A float is kept as the number it
  denotes; the resolver passes it on and never computes with it.
\<close>

datatype pyval =
    VDict nat
  | VFloat real
  | VInt int
  | VStr string
  | VSpecies species
  | VTuple "pyval list"
  | VList "pyval list"

fun key_to_val :: "key \<Rightarrow> pyval" where
  "key_to_val (KStr s) = VStr s"
| "key_to_val (KInt i) = VInt i"
| "key_to_val (KSpecies sp) = VSpecies sp"
| "key_to_val (KTuple ks) = VTuple (map key_to_val ks)"

text \<open>
  Exceptions, by class. \<open>RuntimeError\<close> carries its \<open>args\<close>, the tuple of values the
  constructor was called with; \<open>OtherError\<close> stands for any other exception a collaborator
  (a format reader) raises.
\<close>

datatype pyerr =
    KeyError
  | TypeError
  | IndexError
  | ValueError
  | RuntimeError (exc_args: "pyval list")
  | OtherError string

section \<open>The store of dictionary objects\<close>

text \<open>
  A dictionary is the list of its items in insertion order; a key is looked up with
  \<open>map_of\<close>. The store maps every address to a dictionary; the addresses from
  \<open>next_free\<close> on are not allocated yet.
\<close>

type_synonym dict = "(key \<times> pyval) list"

record heap =
  objs :: "nat \<Rightarrow> dict"
  next_free :: nat

definition alloc :: "heap \<Rightarrow> dict \<Rightarrow> nat \<times> heap" where
  "alloc h d = (next_free h, h\<lparr>objs := (objs h)(next_free h := d), next_free := Suc (next_free h)\<rparr>)"

text \<open>\<open>d.copy()\<close>: a new dictionary object with the same items (a shallow copy).\<close>

definition dict_copy :: "heap \<Rightarrow> nat \<Rightarrow> nat \<times> heap" where
  "dict_copy h a = alloc h (objs h a)"

text \<open>\<open>d[k] = v\<close> on the dictionary object at address \<open>a\<close>.\<close>

definition dict_setitem :: "heap \<Rightarrow> nat \<Rightarrow> key \<Rightarrow> pyval \<Rightarrow> heap" where
  "dict_setitem h a k v = h\<lparr>objs := (objs h)(a := AList.update k v (objs h a))\<rparr>"

text \<open>Indexing a sequence: a negative index counts from the end.\<close>

definition py_index :: "'a list \<Rightarrow> int \<Rightarrow> 'a option" where
  "py_index xs i =
     (let n = int (length xs); j = (if i < 0 then i + n else i)
      in if 0 \<le> j \<and> j < n then Some (xs ! nat j) else None)"

definition seq_getitem :: "pyval list \<Rightarrow> key \<Rightarrow> pyerr + pyval" where
  "seq_getitem xs k =
     (case k of
        KInt i \<Rightarrow> (case py_index xs i of None \<Rightarrow> Inl IndexError | Some v \<Rightarrow> Inr v)
      | _ \<Rightarrow> Inl TypeError)"

text \<open>
  \<open>v[k]\<close>. A dictionary raises \<open>KeyError\<close> on a missing key; a number or a species is
  not subscriptable; a list, a tuple or a string takes integer indices only.
\<close>

fun subscript :: "heap \<Rightarrow> pyval \<Rightarrow> key \<Rightarrow> pyerr + pyval" where
  "subscript h (VDict a) k =
     (case map_of (objs h a) k of None \<Rightarrow> Inl KeyError | Some v \<Rightarrow> Inr v)"
| "subscript h (VList xs) k = seq_getitem xs k"
| "subscript h (VTuple xs) k = seq_getitem xs k"
| "subscript h (VStr s) k = seq_getitem (map (\<lambda>c. VStr [c]) s) k"
| "subscript h (VFloat r) k = Inl TypeError"
| "subscript h (VInt i) k = Inl TypeError"
| "subscript h (VSpecies sp) k = Inl TypeError"

text \<open>\<open>v[k1][k2]...[kn]\<close>, left to right; the first exception ends the chain.\<close>

fun subscripts :: "heap \<Rightarrow> pyval \<Rightarrow> key list \<Rightarrow> pyerr + pyval" where
  "subscripts h v [] = Inr v"
| "subscripts h v (k # ks) =
     (case subscript h v k of Inl e \<Rightarrow> Inl e | Inr v' \<Rightarrow> subscripts h v' ks)"

text \<open>Iterating a value: the items of a list or tuple, the characters of a string, the
  keys of a dictionary.\<close>

fun py_iter :: "heap \<Rightarrow> pyval \<Rightarrow> pyerr + pyval list" where
  "py_iter h (VList xs) = Inr xs"
| "py_iter h (VTuple xs) = Inr xs"
| "py_iter h (VStr s) = Inr (map (\<lambda>c. VStr [c]) s)"
| "py_iter h (VDict a) = Inr (map (key_to_val \<circ> fst) (objs h a))"
| "py_iter h (VFloat r) = Inl TypeError"
| "py_iter h (VInt i) = Inl TypeError"
| "py_iter h (VSpecies sp) = Inl TypeError"

text \<open>The unpacking assignment \<open>a, b = v\<close>.\<close>

definition unpack2 :: "heap \<Rightarrow> pyval \<Rightarrow> pyerr + (pyval \<times> pyval)" where
  "unpack2 h v =
     (case py_iter h v of
        Inl e \<Rightarrow> Inl e
      | Inr xs \<Rightarrow> (case xs of [a, b] \<Rightarrow> Inr (a, b) | _ \<Rightarrow> Inl ValueError))"

text \<open>
  \<open>template.format(*args)\<close> for a template whose only fields are \<open>{}\<close>: each field is
  replaced by the next argument, already rendered as a string.
\<close>

fun py_format :: "string \<Rightarrow> string list \<Rightarrow> string" where
  "py_format [] as = []"
| "py_format (c # cs) as =
     (case (cs, as) of
        (d # ds, a # as') \<Rightarrow>
          if c = CHR ''{'' \<and> d = CHR ''}'' then a @ py_format ds as'
          else c # py_format cs as
      | _ \<Rightarrow> c # py_format cs as)"

text \<open>
  \<open>os.path.join(a, b)\<close> on POSIX: an absolute \<open>b\<close> replaces \<open>a\<close>; otherwise \<open>b\<close> is
  appended, after a separator unless \<open>a\<close> is empty or ends with one. An argument that is
  not a string raises \<open>TypeError\<close>.
\<close>

definition posix_join :: "string \<Rightarrow> string \<Rightarrow> string" where
  "posix_join a b =
     (if take 1 b = ''/'' then b
      else if a = [] \<or> last a = CHR ''/'' then a @ b
      else a @ ''/'' @ b)"

definition path_join :: "string \<Rightarrow> pyval \<Rightarrow> pyerr + string" where
  "path_join a b = (case b of VStr s \<Rightarrow> Inr (posix_join a s) | _ \<Rightarrow> Inl TypeError)"

section \<open>Collaborators\<close>

text \<open>
  The format readers \<open>adf12\<close>, \<open>adf15\<close>, \<open>adf21\<close>, \<open>adf22\<close> of \<open>cherab.openadas.read\<close>
  read a file and may raise; \<open>str_of\<close> is Python's rendering of a value by
  \<open>"{}".format(x)\<close>. They are parameters of the model.
\<close>

record 'd externals =
  adf12 :: "string \<Rightarrow> key \<Rightarrow> pyerr + 'd"
  adf15 :: "string \<Rightarrow> pyval \<Rightarrow> pyerr + 'd"
  adf21 :: "string \<Rightarrow> pyerr + 'd"
  adf22 :: "string \<Rightarrow> pyerr + 'd"
  str_of :: "key \<Rightarrow> string"

text \<open>
  Modelled from the spec: the rate classes of \<open>cherab.openadas.rates\<close> are not part of
  \<open>openadas.py\<close>. A rate object is a value object holding what its constructor was given:
  the tabulated data, the extrapolation flag and, where applicable, the donor metastable
  level and the wavelength.
\<close>

datatype 'd rate =
    BeamCXRate (rate_donor_metastable: pyval) (rate_wavelength: pyval)
      (rate_data: 'd) (rate_extrapolate: bool)
  | BeamStoppingRate (rate_data: 'd) (rate_extrapolate: bool)
  | BeamPopulationRate (rate_data: 'd) (rate_extrapolate: bool)
  | BeamEmissionRate (rate_data: 'd) (rate_wavelength: pyval) (rate_extrapolate: bool)
  | ImpactExcitationRate (rate_wavelength: pyval) (rate_data: 'd) (rate_extrapolate: bool)
  | RecombinationRate (rate_wavelength: pyval) (rate_data: 'd) (rate_extrapolate: bool)

section \<open>The resolver\<close>

record OpenADAS =
  self_data_path :: string
  self_config :: nat
  self_permit_extrapolation :: bool

text \<open>
  \<open>__init__\<close>: \<open>data_path or self._setup_data_path()\<close> takes the given path unless it is
  \<open>None\<close> or empty (\<open>default_path\<close> is what \<open>_setup_data_path\<close> returns); the configuration
  is stored as \<open>config.copy()\<close>.
\<close>

definition init ::
  "heap \<Rightarrow> string \<Rightarrow> string option \<Rightarrow> nat \<Rightarrow> bool \<Rightarrow> OpenADAS \<times> heap" where
  "init h default_path data_path config permit_extrapolation =
     (let (a, h') = dict_copy h config in
      (\<lparr>self_data_path =
          (case data_path of None \<Rightarrow> default_path
           | Some p \<Rightarrow> if p = [] then default_path else p),
        self_config = a,
        self_permit_extrapolation = permit_extrapolation\<rparr>, h'))"

text \<open>The property \<open>config\<close>: \<open>return self._config.copy()\<close>.\<close>

definition config :: "heap \<Rightarrow> OpenADAS \<Rightarrow> nat \<times> heap" where
  "config h self = dict_copy h (self_config self)"

text \<open>The expression \<open>self._config[k1][k2]...[kn]\<close>.\<close>

definition config_lookup :: "heap \<Rightarrow> OpenADAS \<Rightarrow> key list \<Rightarrow> pyerr + pyval" where
  "config_lookup h self ks = subscripts h (VDict (self_config self)) ks"

definition wavelength_error :: "'d externals \<Rightarrow> species \<Rightarrow> int \<Rightarrow> key \<Rightarrow> pyerr" where
  "wavelength_error X ion ionisation transition =
     RuntimeError [VStr (py_format
       ''The requested wavelength data for ({}, {}, {}) is not available.''
       [symbol ion, str_of X (KInt ionisation), str_of X transition])]"

definition wavelength ::
  "'d externals \<Rightarrow> heap \<Rightarrow> OpenADAS \<Rightarrow> species \<Rightarrow> int \<Rightarrow> key \<Rightarrow> pyerr + pyval" where
  "wavelength X h self ion ionisation transition =
     (case config_lookup h self
                     [KStr ''wavelength'', KSpecies ion, KInt ionisation, transition] of
        Inr v \<Rightarrow> Inr v
      | Inl e \<Rightarrow>
          if e = KeyError then
            (case ion of
               Isotope s element m \<Rightarrow>
                 (case config_lookup h self
                     [KStr ''wavelength'', KSpecies (Elem element), KInt ionisation, transition] of
                    Inr v \<Rightarrow> Inr v
                  | Inl e' \<Rightarrow>
                      if e' = KeyError then Inl (wavelength_error X ion ionisation transition)
                      else Inl e')
             | Elem el \<Rightarrow> Inl (wavelength_error X ion ionisation transition))
          else Inl e)"

text \<open>The message of each lookup failure, as the source formats it.\<close>

definition beam_cx_rate_error ::
  "'d externals \<Rightarrow> species \<Rightarrow> species \<Rightarrow> int \<Rightarrow> key \<Rightarrow> pyerr" where
  "beam_cx_rate_error X donor_ion receiver_ion receiver_ionisation transition =
     RuntimeError [VStr (py_format
       (''The requested beam cx rate data does not have an entry in the Open-ADAS configuration'' @
        ''(donor ion: {}, receiver ion: {}, ionisation: {}, transition: {}).'')
       [symbol donor_ion, symbol receiver_ion,
        str_of X (KInt receiver_ionisation), str_of X transition])]"

definition beam_stopping_rate_error ::
  "'d externals \<Rightarrow> species \<Rightarrow> species \<Rightarrow> int \<Rightarrow> pyerr" where
  "beam_stopping_rate_error X beam_ion plasma_ion ionisation =
     RuntimeError [VStr (py_format
       (''The requested beam stopping rate data does not have an entry in the Open-ADAS '' @
        ''configuration (beam ion: {}, plasma ion: {}, ionisation: {}).'')
       [symbol beam_ion, symbol plasma_ion, str_of X (KInt ionisation)])]"

definition beam_population_rate_error ::
  "'d externals \<Rightarrow> species \<Rightarrow> key \<Rightarrow> species \<Rightarrow> int \<Rightarrow> pyerr" where
  "beam_population_rate_error X beam_ion metastable plasma_ion ionisation =
     RuntimeError [VStr (py_format
       (''The requested beam population rate data does not have an entry in the '' @
        ''Open-ADAS configuration (beam ion: {}, metastable: {}, plasma ion: {}, ionisation: {}).'')
       [symbol beam_ion, str_of X metastable, symbol plasma_ion, str_of X (KInt ionisation)])]"

definition beam_emission_rate_error ::
  "'d externals \<Rightarrow> species \<Rightarrow> species \<Rightarrow> int \<Rightarrow> key \<Rightarrow> pyerr" where
  "beam_emission_rate_error X beam_ion plasma_ion ionisation transition =
     RuntimeError [VStr (py_format
       (''The requested beam emission rate data does not have an entry in the '' @
        ''Open-ADAS configuration (beam ion: {}, plasma ion: {}, ionisation: {}, transition: {}).'')
       [symbol beam_ion, symbol plasma_ion, str_of X (KInt ionisation), str_of X transition])]"

definition impact_excitation_rate_error ::
  "'d externals \<Rightarrow> species \<Rightarrow> int \<Rightarrow> key \<Rightarrow> pyerr" where
  "impact_excitation_rate_error X ion ionisation transition =
     RuntimeError [VStr (py_format
       (''The requested impact excitation rate data does not have an entry in the '' @
        ''Open-ADAS configuration (ion: {}, ionisation: {}, transition: {}).'')
       [symbol ion, str_of X (KInt ionisation), str_of X transition])]"

definition recombination_rate_error ::
  "'d externals \<Rightarrow> species \<Rightarrow> int \<Rightarrow> key \<Rightarrow> pyerr" where
  "recombination_rate_error X ion ionisation transition =
     RuntimeError [VStr (py_format
       (''The requested recombination rate data does not have an entry in the '' @
        ''Open-ADAS configuration (ion: {}, ionisation: {}, transition: {}).'')
       [symbol ion, str_of X (KInt ionisation), str_of X transition])]"

text \<open>
  The loop of \<open>beam_cx_rate\<close> over the configured items: each item is unpacked into
  \<open>(donor_metastable, filename)\<close>, the file is read, and the rate is appended to \<open>rates\<close>.
\<close>

fun beam_cx_rate_loop ::
  "'d externals \<Rightarrow> heap \<Rightarrow> OpenADAS \<Rightarrow> pyval \<Rightarrow> key \<Rightarrow> pyval list \<Rightarrow> 'd rate list
     \<Rightarrow> pyerr + 'd rate list" where
  "beam_cx_rate_loop X h self wl transition [] rates = Inr rates"
| "beam_cx_rate_loop X h self wl transition (item # items) rates =
     (case unpack2 h item of
        Inl e \<Rightarrow> Inl e
      | Inr (donor_metastable, filename) \<Rightarrow>
          (case path_join (self_data_path self) filename of
             Inl e \<Rightarrow> Inl e
           | Inr file_path \<Rightarrow>
               (case adf12 X file_path transition of
                  Inl e \<Rightarrow> Inl e
                | Inr d \<Rightarrow>
                    beam_cx_rate_loop X h self wl transition items
                      (rates @ [BeamCXRate donor_metastable wl d (self_permit_extrapolation self)]))))"

definition beam_cx_rate ::
  "'d externals \<Rightarrow> heap \<Rightarrow> OpenADAS \<Rightarrow> species \<Rightarrow> species \<Rightarrow> int \<Rightarrow> key
     \<Rightarrow> pyerr + 'd rate list" where
  "beam_cx_rate X h self donor_ion receiver_ion receiver_ionisation transition =
     (case wavelength X h self receiver_ion (receiver_ionisation - 1) transition of
        Inl e \<Rightarrow> Inl e
      | Inr wl \<Rightarrow>
          (let donor = extract_element donor_ion;
               receiver = extract_element receiver_ion
           in case config_lookup h self
                     [KStr ''cxs'', KSpecies donor, KSpecies receiver, KInt receiver_ionisation] of
                Inl e \<Rightarrow>
                  if e = KeyError
                  then Inl (beam_cx_rate_error X donor receiver receiver_ionisation transition)
                  else Inl e
              | Inr data \<Rightarrow>
                  (case py_iter h data of
                     Inl e \<Rightarrow> Inl e
                   | Inr items \<Rightarrow> beam_cx_rate_loop X h self wl transition items [])))"

definition beam_stopping_rate ::
  "'d externals \<Rightarrow> heap \<Rightarrow> OpenADAS \<Rightarrow> species \<Rightarrow> species \<Rightarrow> int \<Rightarrow> pyerr + 'd rate" where
  "beam_stopping_rate X h self beam_ion plasma_ion ionisation =
     (let beam = extract_element beam_ion;
          plasma = extract_element plasma_ion
      in case config_lookup h self
                     [KStr ''bms'', KSpecies beam, KSpecies plasma, KInt ionisation] of
           Inl e \<Rightarrow>
             if e = KeyError then Inl (beam_stopping_rate_error X beam plasma ionisation)
             else Inl e
         | Inr filename \<Rightarrow>
             (case path_join (self_data_path self) filename of
                Inl e \<Rightarrow> Inl e
              | Inr file_path \<Rightarrow>
                  (case adf21 X file_path of
                     Inl e \<Rightarrow> Inl e
                   | Inr d \<Rightarrow> Inr (BeamStoppingRate d (self_permit_extrapolation self)))))"

definition beam_population_rate ::
  "'d externals \<Rightarrow> heap \<Rightarrow> OpenADAS \<Rightarrow> species \<Rightarrow> key \<Rightarrow> species \<Rightarrow> int \<Rightarrow> pyerr + 'd rate" where
  "beam_population_rate X h self beam_ion metastable plasma_ion ionisation =
     (let beam = extract_element beam_ion;
          plasma = extract_element plasma_ion
      in case config_lookup h self
                     [KStr ''bmp'', KSpecies beam, metastable, KSpecies plasma, KInt ionisation] of
           Inl e \<Rightarrow>
             if e = KeyError
             then Inl (beam_population_rate_error X beam metastable plasma ionisation)
             else Inl e
         | Inr filename \<Rightarrow>
             (case path_join (self_data_path self) filename of
                Inl e \<Rightarrow> Inl e
              | Inr file_path \<Rightarrow>
                  (case adf22 X file_path of
                     Inl e \<Rightarrow> Inl e
                   | Inr d \<Rightarrow> Inr (BeamPopulationRate d (self_permit_extrapolation self)))))"

definition beam_emission_rate ::
  "'d externals \<Rightarrow> heap \<Rightarrow> OpenADAS \<Rightarrow> species \<Rightarrow> species \<Rightarrow> int \<Rightarrow> key \<Rightarrow> pyerr + 'd rate" where
  "beam_emission_rate X h self beam_ion plasma_ion ionisation transition =
     (case wavelength X h self beam_ion 0 transition of
        Inl e \<Rightarrow> Inl e
      | Inr wl \<Rightarrow>
          (let beam = extract_element beam_ion;
               plasma = extract_element plasma_ion
           in case config_lookup h self
                     [KStr ''bme'', KSpecies beam, KSpecies plasma, KInt ionisation, transition] of
                Inl e \<Rightarrow>
                  if e = KeyError
                  then Inl (beam_emission_rate_error X beam plasma ionisation transition)
                  else Inl e
              | Inr filename \<Rightarrow>
                  (case path_join (self_data_path self) filename of
                     Inl e \<Rightarrow> Inl e
                   | Inr file_path \<Rightarrow>
                       (case adf22 X file_path of
                          Inl e \<Rightarrow> Inl e
                        | Inr d \<Rightarrow>
                            Inr (BeamEmissionRate d wl (self_permit_extrapolation self))))))"

definition impact_excitation_rate ::
  "'d externals \<Rightarrow> heap \<Rightarrow> OpenADAS \<Rightarrow> species \<Rightarrow> int \<Rightarrow> key \<Rightarrow> pyerr + 'd rate" where
  "impact_excitation_rate X h self ion ionisation transition =
     (case wavelength X h self ion ionisation transition of
        Inl e \<Rightarrow> Inl e
      | Inr wl \<Rightarrow>
          (let ion' = extract_element ion
           in case config_lookup h self
                     [KStr ''excitation'', KSpecies ion', KInt ionisation, transition] of
                Inl e \<Rightarrow>
                  if e = KeyError
                  then Inl (impact_excitation_rate_error X ion' ionisation transition)
                  else Inl e
              | Inr entry \<Rightarrow>
                  (case unpack2 h entry of
                     Inl e \<Rightarrow> Inl e
                   | Inr (filename, block_number) \<Rightarrow>
                       (case path_join (self_data_path self) filename of
                          Inl e \<Rightarrow> Inl e
                        | Inr file_path \<Rightarrow>
                            (case adf15 X file_path block_number of
                               Inl e \<Rightarrow> Inl e
                             | Inr d \<Rightarrow>
                                 Inr (ImpactExcitationRate wl d
                                        (self_permit_extrapolation self)))))))"

definition recombination_rate ::
  "'d externals \<Rightarrow> heap \<Rightarrow> OpenADAS \<Rightarrow> species \<Rightarrow> int \<Rightarrow> key \<Rightarrow> pyerr + 'd rate" where
  "recombination_rate X h self ion ionisation transition =
     (case wavelength X h self ion ionisation transition of
        Inl e \<Rightarrow> Inl e
      | Inr wl \<Rightarrow>
          (let ion' = extract_element ion
           in case config_lookup h self
                     [KStr ''recombination'', KSpecies ion', KInt ionisation, transition] of
                Inl e \<Rightarrow>
                  if e = KeyError
                  then Inl (recombination_rate_error X ion' ionisation transition)
                  else Inl e
              | Inr entry \<Rightarrow>
                  (case unpack2 h entry of
                     Inl e \<Rightarrow> Inl e
                   | Inr (filename, block_number) \<Rightarrow>
                       (case path_join (self_data_path self) filename of
                          Inl e \<Rightarrow> Inl e
                        | Inr file_path \<Rightarrow>
                            (case adf15 X file_path block_number of
                               Inl e \<Rightarrow> Inl e
                             | Inr d \<Rightarrow>
                                 Inr (RecombinationRate wl d
                                        (self_permit_extrapolation self)))))))"

section \<open>An example configuration\<close>

text \<open>
  An instance of the collaborators for the examples: every reader returns the path it was
  given, tagged with its name; \<open>example_str\<close> agrees with Python's \<open>str\<close> on integers and
  on pairs of integers, which is all the examples format (strings and species symbols are
  passed through, other tuples print as \<open>(...)\<close>).
\<close>

fun str_nat :: "nat \<Rightarrow> string" where
  "str_nat n =
     (if n < 10 then [''0123456789'' ! n]
      else str_nat (n div 10) @ [''0123456789'' ! (n mod 10)])"

declare str_nat.simps [simp del]

definition str_int :: "int \<Rightarrow> string" where
  "str_int i = (if i < 0 then ''-'' @ str_nat (nat (- i)) else str_nat (nat i))"

definition example_str :: "key \<Rightarrow> string" where
  "example_str k =
     (case k of
        KInt i \<Rightarrow> str_int i
      | KStr s \<Rightarrow> s
      | KSpecies sp \<Rightarrow> symbol sp
      | KTuple ks \<Rightarrow>
          (case ks of
             [KInt a, KInt b] \<Rightarrow> ''('' @ str_int a @ '', '' @ str_int b @ '')''
           | _ \<Rightarrow> ''(...)''))"

definition example_externals :: "string externals" where
  "example_externals =
     \<lparr>adf12 = (\<lambda>p t. Inr (''adf12 '' @ p)),
      adf15 = (\<lambda>p b. Inr (''adf15 '' @ p)),
      adf21 = (\<lambda>p. Inr (''adf21 '' @ p)),
      adf22 = (\<lambda>p. Inr (''adf22 '' @ p)),
      str_of = example_str\<rparr>"

definition hydrogen :: element where "hydrogen = Element ''H''"
definition carbon :: element where "carbon = Element ''C''"
definition deuterium :: species where "deuterium = Isotope ''D'' hydrogen 2"
definition carbon12 :: species where "carbon12 = Isotope ''C12'' carbon 12"

text \<open>The store whose dictionary at address \<open>a\<close> is the \<open>a\<close>-th of a list.\<close>

definition heap_of :: "dict list \<Rightarrow> heap" where
  "heap_of ds = \<lparr>objs = (\<lambda>a. if a < length ds then ds ! a else []), next_free = length ds\<rparr>"

text \<open>
  The configuration of the examples. \<open>example_dicts\<close> lists its dictionary objects by
  address: 0 is the top level, the nested dictionaries follow in the order of the literal,
  and the two of \<open>excitation[hydrogen]\<close> come last (29 and 30).
  \<^verbatim>\<open>
  {"wavelength":    {carbon:   {5: {(8, 7): 529.1}},
                     hydrogen: {0: {(3, 2): 656.28}},
                     deuterium: {0: {(3, 2): 656.1}}},
   "cxs":           {hydrogen: {carbon:   {6: [(1, "file_a.dat"), (2, "file_b.dat")]},
                                hydrogen: {1: [(1, "h.dat")]}}},
   "bms":           {hydrogen: {carbon: {6: "bms.dat"}}},
   "bmp":           {hydrogen: {2: {carbon: {6: "bmp.dat"}}}},
   "bme":           {hydrogen: {carbon: {6: {(3, 2): "bme.dat"}}}},
   "excitation":    {carbon:   {5: {(8, 7): ("exc.dat", 3)}},
                     hydrogen: {0: {(3, 2): ("exch.dat", 1)}}},
   "recombination": {carbon:   {5: {(8, 7): ("rec.dat", 4)}}}}
  \<close>
  The resolver of the examples is \<open>OpenADAS("/data", config)\<close>: its stored copy of the
  top level is at address 31.
\<close>

definition example_dicts :: "dict list" where
  "example_dicts =
    [ [(KStr ''wavelength'', VDict 1), (KStr ''cxs'', VDict 8), (KStr ''bms'', VDict 12),
       (KStr ''bmp'', VDict 15), (KStr ''bme'', VDict 19), (KStr ''excitation'', VDict 23),
       (KStr ''recombination'', VDict 26)],
      [(KSpecies (Elem carbon), VDict 2), (KSpecies (Elem hydrogen), VDict 4),
       (KSpecies deuterium, VDict 6)],
      [(KInt 5, VDict 3)],
      [(KTuple [KInt 8, KInt 7], VFloat 529.1)],
      [(KInt 0, VDict 5)],
      [(KTuple [KInt 3, KInt 2], VFloat 656.28)],
      [(KInt 0, VDict 7)],
      [(KTuple [KInt 3, KInt 2], VFloat 656.1)],
      [(KSpecies (Elem hydrogen), VDict 9)],
      [(KSpecies (Elem carbon), VDict 10), (KSpecies (Elem hydrogen), VDict 11)],
      [(KInt 6, VList [VTuple [VInt 1, VStr ''file_a.dat''], VTuple [VInt 2, VStr ''file_b.dat'']])],
      [(KInt 1, VList [VTuple [VInt 1, VStr ''h.dat'']])],
      [(KSpecies (Elem hydrogen), VDict 13)],
      [(KSpecies (Elem carbon), VDict 14)],
      [(KInt 6, VStr ''bms.dat'')],
      [(KSpecies (Elem hydrogen), VDict 16)],
      [(KInt 2, VDict 17)],
      [(KSpecies (Elem carbon), VDict 18)],
      [(KInt 6, VStr ''bmp.dat'')],
      [(KSpecies (Elem hydrogen), VDict 20)],
      [(KSpecies (Elem carbon), VDict 21)],
      [(KInt 6, VDict 22)],
      [(KTuple [KInt 3, KInt 2], VStr ''bme.dat'')],
      [(KSpecies (Elem carbon), VDict 24), (KSpecies (Elem hydrogen), VDict 29)],
      [(KInt 5, VDict 25)],
      [(KTuple [KInt 8, KInt 7], VTuple [VStr ''exc.dat'', VInt 3])],
      [(KSpecies (Elem carbon), VDict 27)],
      [(KInt 5, VDict 28)],
      [(KTuple [KInt 8, KInt 7], VTuple [VStr ''rec.dat'', VInt 4])],
      [(KInt 0, VDict 30)],
      [(KTuple [KInt 3, KInt 2], VTuple [VStr ''exch.dat'', VInt 1])] ]"

definition example_adas :: OpenADAS where
  "example_adas = fst (init (heap_of example_dicts) ''~/.cherab/openadas'' (Some ''/data'') 0 False)"

definition example_heap :: heap where
  "example_heap = snd (init (heap_of example_dicts) ''~/.cherab/openadas'' (Some ''/data'') 0 False)"

section \<open>Properties\<close>

subsection \<open>Evaluating the example\<close>

lemma str_nat_numeral [simp]:
  "str_nat (numeral k) =
     (if (numeral k :: nat) < 10 then [''0123456789'' ! numeral k]
      else str_nat (numeral k div 10) @ [''0123456789'' ! (numeral k mod 10)])"
  by (rule str_nat.simps)

lemma str_nat_0 [simp]: "str_nat 0 = ''0''"
  by (simp add: str_nat.simps [of 0])

lemma str_nat_Suc_0 [simp]: "str_nat (Suc 0) = ''1''"
  by (simp add: str_nat.simps [of "Suc 0"])

lemmas example_defs =
  example_adas_def example_heap_def init_def dict_copy_def alloc_def heap_of_def
  example_dicts_def example_externals_def example_str_def str_int_def
  hydrogen_def carbon_def deuterium_def carbon12_def config_lookup_def

lemmas example_eval =
  example_defs wavelength_def posix_join_def
  wavelength_error_def beam_cx_rate_error_def beam_stopping_rate_error_def
  beam_population_rate_error_def beam_emission_rate_error_def
  impact_excitation_rate_error_def recombination_rate_error_def

subsection \<open>One lemma for each exit of each method\<close>

lemma wavelength_miss:
  "config_lookup h self [KStr ''wavelength'', KSpecies ion, KInt i, t] = Inl KeyError \<Longrightarrow>
   config_lookup h self [KStr ''wavelength'', KSpecies (extract_element ion), KInt i, t] = Inl KeyError \<Longrightarrow>
   wavelength X h self ion i t = Inl (wavelength_error X ion i t)"
  by (cases ion) (simp_all add: wavelength_def)

lemma beam_cx_rate_wavelength_fails:
  "wavelength X h self receiver (ri - 1) t = Inl e \<Longrightarrow>
   beam_cx_rate X h self donor receiver ri t = Inl e"
  by (simp add: beam_cx_rate_def)

lemma beam_cx_rate_miss:
  "wavelength X h self receiver (ri - 1) t = Inr wl \<Longrightarrow>
   config_lookup h self
     [KStr ''cxs'', KSpecies (extract_element donor), KSpecies (extract_element receiver), KInt ri]
     = Inl KeyError \<Longrightarrow>
   beam_cx_rate X h self donor receiver ri t
     = Inl (beam_cx_rate_error X (extract_element donor) (extract_element receiver) ri t)"
  by (simp add: beam_cx_rate_def)

lemma beam_stopping_rate_miss:
  "config_lookup h self
     [KStr ''bms'', KSpecies (extract_element beam), KSpecies (extract_element plasma), KInt i]
     = Inl KeyError \<Longrightarrow>
   beam_stopping_rate X h self beam plasma i
     = Inl (beam_stopping_rate_error X (extract_element beam) (extract_element plasma) i)"
  by (simp add: beam_stopping_rate_def)

lemma beam_population_rate_miss:
  "config_lookup h self
     [KStr ''bmp'', KSpecies (extract_element beam), ms, KSpecies (extract_element plasma), KInt i]
     = Inl KeyError \<Longrightarrow>
   beam_population_rate X h self beam ms plasma i
     = Inl (beam_population_rate_error X (extract_element beam) ms (extract_element plasma) i)"
  by (simp add: beam_population_rate_def)

lemma beam_emission_rate_wavelength_fails:
  "wavelength X h self beam 0 t = Inl e \<Longrightarrow>
   beam_emission_rate X h self beam plasma i t = Inl e"
  by (simp add: beam_emission_rate_def)

lemma beam_emission_rate_miss:
  "wavelength X h self beam 0 t = Inr wl \<Longrightarrow>
   config_lookup h self
     [KStr ''bme'', KSpecies (extract_element beam), KSpecies (extract_element plasma), KInt i, t]
     = Inl KeyError \<Longrightarrow>
   beam_emission_rate X h self beam plasma i t
     = Inl (beam_emission_rate_error X (extract_element beam) (extract_element plasma) i t)"
  by (simp add: beam_emission_rate_def)

lemma impact_excitation_rate_wavelength_fails:
  "wavelength X h self ion i t = Inl e \<Longrightarrow> impact_excitation_rate X h self ion i t = Inl e"
  by (simp add: impact_excitation_rate_def)

lemma impact_excitation_rate_miss:
  "wavelength X h self ion i t = Inr wl \<Longrightarrow>
   config_lookup h self [KStr ''excitation'', KSpecies (extract_element ion), KInt i, t]
     = Inl KeyError \<Longrightarrow>
   impact_excitation_rate X h self ion i t
     = Inl (impact_excitation_rate_error X (extract_element ion) i t)"
  by (simp add: impact_excitation_rate_def)

lemma recombination_rate_wavelength_fails:
  "wavelength X h self ion i t = Inl e \<Longrightarrow> recombination_rate X h self ion i t = Inl e"
  by (simp add: recombination_rate_def)

lemma recombination_rate_miss:
  "wavelength X h self ion i t = Inr wl \<Longrightarrow>
   config_lookup h self [KStr ''recombination'', KSpecies (extract_element ion), KInt i, t]
     = Inl KeyError \<Longrightarrow>
   recombination_rate X h self ion i t
     = Inl (recombination_rate_error X (extract_element ion) i t)"
  by (simp add: recombination_rate_def)

lemma extract_element_idem [simp]: "extract_element (extract_element sp) = extract_element sp"
  by (cases sp) simp_all

lemma beam_stopping_rate_normalised:
  "beam_stopping_rate X h self beam plasma i
     = beam_stopping_rate X h self (extract_element beam) (extract_element plasma) i"
  by (simp add: beam_stopping_rate_def)

lemma beam_population_rate_normalised:
  "beam_population_rate X h self beam ms plasma i
     = beam_population_rate X h self (extract_element beam) ms (extract_element plasma) i"
  by (simp add: beam_population_rate_def)

lemma wavelength_fallback_same:
  "config_lookup h self [KStr ''wavelength'', KSpecies (Isotope s e m), KInt i, t] = Inl KeyError \<Longrightarrow>
   config_lookup h self [KStr ''wavelength'', KSpecies (Elem e), KInt i, t] = Inr v \<Longrightarrow>
   wavelength X h self (Isotope s e m) i t = wavelength X h self (Elem e) i t"
  by (simp add: wavelength_def)

lemma impact_excitation_rate_same:
  "wavelength X h self ion i t = wavelength X h self (extract_element ion) i t \<Longrightarrow>
   impact_excitation_rate X h self ion i t
     = impact_excitation_rate X h self (extract_element ion) i t"
  by (simp add: impact_excitation_rate_def split: sum.split)

lemma recombination_rate_same:
  "wavelength X h self ion i t = wavelength X h self (extract_element ion) i t \<Longrightarrow>
   recombination_rate X h self ion i t
     = recombination_rate X h self (extract_element ion) i t"
  by (simp add: recombination_rate_def split: sum.split)

lemma beam_population_rate_found:
  "config_lookup h self
     [KStr ''bmp'', KSpecies (extract_element beam), ms, KSpecies (extract_element plasma), KInt i]
     = Inr (VStr f) \<Longrightarrow>
   adf22 X (posix_join (self_data_path self) f) = Inr d \<Longrightarrow>
   beam_population_rate X h self beam ms plasma i
     = Inr (BeamPopulationRate d (self_permit_extrapolation self))"
  by (simp add: beam_population_rate_def path_join_def)

lemma beam_emission_rate_found:
  "wavelength X h self beam 0 t = Inr wl \<Longrightarrow>
   config_lookup h self
     [KStr ''bme'', KSpecies (extract_element beam), KSpecies (extract_element plasma), KInt i, t]
     = Inr (VStr f) \<Longrightarrow>
   adf22 X (posix_join (self_data_path self) f) = Inr d \<Longrightarrow>
   beam_emission_rate X h self beam plasma i t
     = Inr (BeamEmissionRate d wl (self_permit_extrapolation self))"
  by (simp add: beam_emission_rate_def path_join_def)

lemma beam_emission_rate_carries_wavelength:
  "wavelength X h self beam 0 t = Inr wl \<Longrightarrow>
   beam_emission_rate X h self beam plasma i t = Inr r \<Longrightarrow>
   rate_wavelength r = wl"
  by (auto simp: beam_emission_rate_def Let_def split: sum.splits if_splits)

subsection \<open>What a subscript chain can raise\<close>

lemma subscript_errors:
  "subscript h v k = Inl e \<Longrightarrow> e = KeyError \<or> e = TypeError \<or> e = IndexError"
  by (cases v)
    (auto simp: seq_getitem_def split: option.splits key.splits)

lemma subscripts_errors:
  "subscripts h v ks = Inl e \<Longrightarrow> e = KeyError \<or> e = TypeError \<or> e = IndexError"
proof (induction ks arbitrary: v)
  case Nil
  then show ?case by simp
next
  case (Cons k ks)
  show ?case
  proof (cases "subscript h v k")
    case (Inl e')
    with Cons.prems have "e' = e" by simp
    with Inl show ?thesis using subscript_errors by blast
  next
    case (Inr v')
    with Cons.prems have "subscripts h v' ks = Inl e" by simp
    then show ?thesis by (rule Cons.IH)
  qed
qed

lemma config_lookup_not_RuntimeError:
  "config_lookup h self ks \<noteq> Inl (RuntimeError args)"
  using subscripts_errors [of h "VDict (self_config self)" ks "RuntimeError args"]
  by (auto simp: config_lookup_def)

lemma wavelength_RuntimeError:
  "wavelength X h self ion i t = Inl (RuntimeError args) \<Longrightarrow>
   Inl (RuntimeError args) = (Inl (wavelength_error X ion i t) :: pyerr + pyval)"
  using config_lookup_not_RuntimeError [of h self _ args]
  by (cases ion)
    (auto simp: wavelength_def split: sum.splits if_splits)

subsection \<open>The loop of \<open>beam_cx_rate\<close>\<close>

lemma unpack2_pair [simp]: "unpack2 h (VTuple [a, b]) = Inr (a, b)"
  by (simp add: unpack2_def)

lemma path_join_str [simp]: "path_join a (VStr f) = Inr (posix_join a f)"
  by (simp add: path_join_def)

lemma loop_step:
  assumes "beam_cx_rate_loop X h self wl t (item # items) acc = Inr rates"
  obtains m fn fp d where
    "unpack2 h item = Inr (m, fn)"
    "path_join (self_data_path self) fn = Inr fp"
    "adf12 X fp t = Inr d"
    "beam_cx_rate_loop X h self wl t items
       (acc @ [BeamCXRate m wl d (self_permit_extrapolation self)]) = Inr rates"
proof (cases "unpack2 h item")
  case (Inl e)
  with assms show ?thesis by simp
next
  case (Inr mf)
  obtain m fn where mf: "mf = (m, fn)" by (cases mf)
  show ?thesis
  proof (cases "path_join (self_data_path self) fn")
    case (Inl e)
    with assms Inr mf show ?thesis by simp
  next
    case fp: (Inr fp)
    show ?thesis
    proof (cases "adf12 X fp t")
      case (Inl e)
      with assms Inr mf fp show ?thesis by simp
    next
      case d: (Inr d)
      with assms Inr mf fp have
        "beam_cx_rate_loop X h self wl t items
           (acc @ [BeamCXRate m wl d (self_permit_extrapolation self)]) = Inr rates"
        by simp
      with Inr mf fp d that show ?thesis by simp
    qed
  qed
qed

lemma loop_pairs:
  "beam_cx_rate_loop X h self wl t (map (\<lambda>(m, f). VTuple [m, VStr f]) pairs) acc = Inr rates \<Longrightarrow>
   \<exists>ds. length ds = length pairs \<and>
     rates = acc @ map (\<lambda>((m, f), d). BeamCXRate m wl d (self_permit_extrapolation self))
                      (zip pairs ds)"
proof (induction pairs arbitrary: acc)
  case Nil
  then show ?case by simp
next
  case (Cons p pairs)
  obtain m f where p: "p = (m, f)" by (cases p)
  from Cons.prems p have
    "beam_cx_rate_loop X h self wl t
       (VTuple [m, VStr f] # map (\<lambda>(m, f). VTuple [m, VStr f]) pairs) acc = Inr rates"
    by simp
  then obtain d where
    rest: "beam_cx_rate_loop X h self wl t (map (\<lambda>(m, f). VTuple [m, VStr f]) pairs)
             (acc @ [BeamCXRate m wl d (self_permit_extrapolation self)]) = Inr rates"
    by (rule loop_step) simp
  from Cons.IH [OF rest] obtain ds where
    len: "length ds = length pairs" and
    eq: "rates = (acc @ [BeamCXRate m wl d (self_permit_extrapolation self)]) @
           map (\<lambda>((m, f), d). BeamCXRate m wl d (self_permit_extrapolation self)) (zip pairs ds)"
    by blast
  have "length (d # ds) = length (p # pairs)" using len by simp
  moreover have "rates = acc @ map (\<lambda>((m, f), d). BeamCXRate m wl d (self_permit_extrapolation self))
                      (zip (p # pairs) (d # ds))"
    using eq p by simp
  ultimately show ?case by blast
qed

lemma pairs_shape:
  assumes "length ds = length pairs"
    and "rates = map (\<lambda>((m, f), d). BeamCXRate m wl d ext) (zip pairs ds)"
  shows "length rates = length pairs \<and>
         (\<forall>i<length pairs. rate_donor_metastable (rates ! i) = fst (pairs ! i))"
  using assms by (auto simp: split_beta)

lemma loop_wavelength:
  "beam_cx_rate_loop X h self wl t items acc = Inr rates \<Longrightarrow>
   \<forall>r\<in>set acc. rate_wavelength r = wl \<Longrightarrow>
   \<forall>r\<in>set rates. rate_wavelength r = wl"
proof (induction items arbitrary: acc)
  case Nil
  then show ?case by simp
next
  case (Cons item items)
  from Cons.prems(1) obtain m d where
    rest: "beam_cx_rate_loop X h self wl t items
             (acc @ [BeamCXRate m wl d (self_permit_extrapolation self)]) = Inr rates"
    by (rule loop_step)
  have "\<forall>r\<in>set (acc @ [BeamCXRate m wl d (self_permit_extrapolation self)]). rate_wavelength r = wl"
    using Cons.prems(2) by simp
  from Cons.IH [OF rest this] show ?case .
qed

lemma loop_total:
  "\<forall>(m, f)\<in>set pairs. \<exists>d. adf12 X (posix_join (self_data_path self) f) t = Inr d \<Longrightarrow>
   \<exists>rates. beam_cx_rate_loop X h self wl t (map (\<lambda>(m, f). VTuple [m, VStr f]) pairs) acc = Inr rates"
proof (induction pairs arbitrary: acc)
  case Nil
  then show ?case by simp
next
  case (Cons p pairs)
  obtain m f where p: "p = (m, f)" by (cases p)
  from Cons.prems p obtain d where d: "adf12 X (posix_join (self_data_path self) f) t = Inr d"
    by auto
  from Cons.prems
  have "\<forall>(m, f)\<in>set pairs. \<exists>d. adf12 X (posix_join (self_data_path self) f) t = Inr d"
    by simp
  from Cons.IH [OF this] obtain rates where
    "beam_cx_rate_loop X h self wl t (map (\<lambda>(m, f). VTuple [m, VStr f]) pairs)
       (acc @ [BeamCXRate m wl d (self_permit_extrapolation self)]) = Inr rates"
    by blast
  with p d show ?case by simp
qed

subsection \<open>The wavelength lookup\<close>

text \<open>
  C1. For an Isotope with no isotope-level wavelength entry (the direct lookup raises
  \<open>KeyError\<close>) and an entry under its parent Element, \<open>wavelength\<close> returns the
  Element-level value. The direct lookup \<open>wavelength[species][ionisation][transition]\<close>
  comes first: when it finds a value, that value is returned whatever the Element level
  holds, and when it raises anything but \<open>KeyError\<close> the exception propagates. The
  Element is retried only for an Isotope: an Element whose direct lookup misses fails at
  once.
\<close>

theorem wavelength_isotope_fallback:
  "(config_lookup h self [KStr ''wavelength'', KSpecies (Isotope s e m), KInt i, t] = Inl KeyError \<and>
    config_lookup h self [KStr ''wavelength'', KSpecies (Elem e), KInt i, t] = Inr v
      \<longrightarrow> wavelength X h self (Isotope s e m) i t = Inr v) \<and>
   (config_lookup h self [KStr ''wavelength'', KSpecies ion, KInt i, t] = Inr v
      \<longrightarrow> wavelength X h self ion i t = Inr v) \<and>
   (config_lookup h self [KStr ''wavelength'', KSpecies ion, KInt i, t] = Inl err \<and> err \<noteq> KeyError
      \<longrightarrow> wavelength X h self ion i t = Inl err) \<and>
   (config_lookup h self [KStr ''wavelength'', KSpecies (Elem e), KInt i, t] = Inl KeyError
      \<longrightarrow> wavelength X h self (Elem e) i t = Inl (wavelength_error X (Elem e) i t))"
  by (simp add: wavelength_def)

theorem wavelength_isotope_fallback_witness:
  "config_lookup example_heap example_adas
     [KStr ''wavelength'', KSpecies carbon12, KInt 5, KTuple [KInt 8, KInt 7]] = Inl KeyError \<and>
   config_lookup example_heap example_adas
     [KStr ''wavelength'', KSpecies (Elem carbon), KInt 5, KTuple [KInt 8, KInt 7]]
     = Inr (VFloat 529.1) \<and>
   wavelength example_externals example_heap example_adas carbon12 5 (KTuple [KInt 8, KInt 7])
     = Inr (VFloat 529.1) \<and>
   wavelength example_externals example_heap example_adas deuterium 0 (KTuple [KInt 3, KInt 2])
     = Inr (VFloat 656.1) \<and>
   wavelength example_externals (heap_of [[(KStr ''wavelength'', VFloat 1)]])
       \<lparr>self_data_path = ''/data'', self_config = 0, self_permit_extrapolation = False\<rparr>
       carbon12 5 (KTuple [KInt 8, KInt 7])
     = Inl TypeError \<and>
   wavelength example_externals example_heap example_adas (Elem carbon) 4 (KTuple [KInt 8, KInt 7])
     = Inl (RuntimeError
         [VStr ''The requested wavelength data for (C, 4, (8, 7)) is not available.''])"
proof -
  let ?X = example_externals and ?h = example_heap and ?a = example_adas
  let ?h' = "heap_of [[(KStr ''wavelength'', VFloat 1)]]"
  let ?a' = "\<lparr>self_data_path = ''/data'', self_config = 0, self_permit_extrapolation = False\<rparr>"
  have miss: "config_lookup ?h ?a
      [KStr ''wavelength'', KSpecies (Isotope ''C12'' carbon 12), KInt 5, KTuple [KInt 8, KInt 7]]
      = Inl KeyError"
    by (simp add: example_defs)
  have elem: "config_lookup ?h ?a
      [KStr ''wavelength'', KSpecies (Elem carbon), KInt 5, KTuple [KInt 8, KInt 7]]
      = Inr (VFloat 529.1)"
    by (simp add: example_defs)
  have direct: "config_lookup ?h ?a
      [KStr ''wavelength'', KSpecies deuterium, KInt 0, KTuple [KInt 3, KInt 2]]
      = Inr (VFloat 656.1)"
    by (simp add: example_defs)
  have other: "config_lookup ?h' ?a'
      [KStr ''wavelength'', KSpecies carbon12, KInt 5, KTuple [KInt 8, KInt 7]]
      = Inl TypeError"
    by (simp add: config_lookup_def heap_of_def)
  have none: "config_lookup ?h ?a
      [KStr ''wavelength'', KSpecies (Elem carbon), KInt 4, KTuple [KInt 8, KInt 7]]
      = Inl KeyError"
    by (simp add: example_defs)
  note th = wavelength_isotope_fallback [where X = ?X and h = ?h and self = ?a]
  have 1: "wavelength ?X ?h ?a carbon12 5 (KTuple [KInt 8, KInt 7]) = Inr (VFloat 529.1)"
    using th [of "''C12''" carbon 12 5 "KTuple [KInt 8, KInt 7]" "VFloat 529.1"] miss elem
    by (simp add: carbon12_def)
  have 2: "wavelength ?X ?h ?a deuterium 0 (KTuple [KInt 3, KInt 2]) = Inr (VFloat 656.1)"
    using th [where ion = deuterium and i = 0 and t = "KTuple [KInt 3, KInt 2]"
        and v = "VFloat 656.1"] direct
    by simp
  have 3: "wavelength ?X ?h' ?a' carbon12 5 (KTuple [KInt 8, KInt 7]) = Inl TypeError"
    using wavelength_isotope_fallback [where X = ?X and h = ?h' and self = ?a'
        and ion = carbon12 and i = 5 and t = "KTuple [KInt 8, KInt 7]" and err = TypeError] other
    by simp
  have 4: "wavelength ?X ?h ?a (Elem carbon) 4 (KTuple [KInt 8, KInt 7])
     = Inl (RuntimeError
         [VStr ''The requested wavelength data for (C, 4, (8, 7)) is not available.''])"
    using th [where e = carbon and i = 4 and t = "KTuple [KInt 8, KInt 7]"] none
    by (simp add: wavelength_error_def example_externals_def example_str_def str_int_def
        carbon_def)
  from miss elem 1 2 3 4 show ?thesis by (simp add: carbon12_def)
qed

subsection \<open>Charge exchange\<close>

text \<open>
  C5. When \<open>cxs[donor][receiver][receiver_ionisation]\<close> (species normalised) is a list of
  (metastable level, file name) pairs, every sequence \<open>beam_cx_rate\<close> returns has as many
  rate objects as the list has pairs, and its i-th rate object carries the i-th configured
  metastable level: the configuration's order is kept. The call does return such a
  sequence once the inner wavelength lookup succeeds and the reader accepts every file.
\<close>

theorem beam_cx_rate_follows_configuration:
  assumes cfg: "config_lookup h self
      [KStr ''cxs'', KSpecies (extract_element donor), KSpecies (extract_element receiver), KInt ri]
      = Inr (VList (map (\<lambda>(m, f). VTuple [m, VStr f]) pairs))"
  shows "(\<forall>rates. beam_cx_rate X h self donor receiver ri t = Inr rates \<longrightarrow>
            length rates = length pairs \<and>
            (\<forall>i<length pairs. rate_donor_metastable (rates ! i) = fst (pairs ! i))) \<and>
         ((\<exists>wl. wavelength X h self receiver (ri - 1) t = Inr wl) \<and>
          (\<forall>(m, f)\<in>set pairs. \<exists>d. adf12 X (posix_join (self_data_path self) f) t = Inr d)
            \<longrightarrow> (\<exists>rates. beam_cx_rate X h self donor receiver ri t = Inr rates))"
proof -
  have shape: "length rates = length pairs \<and>
      (\<forall>i<length pairs. rate_donor_metastable (rates ! i) = fst (pairs ! i))"
    if res: "beam_cx_rate X h self donor receiver ri t = Inr rates" for rates
  proof -
    from res obtain wl where wl: "wavelength X h self receiver (ri - 1) t = Inr wl"
      by (cases "wavelength X h self receiver (ri - 1) t") (simp_all add: beam_cx_rate_def)
    with res cfg have
      "beam_cx_rate_loop X h self wl t (map (\<lambda>(m, f). VTuple [m, VStr f]) pairs) [] = Inr rates"
      by (simp add: beam_cx_rate_def)
    from loop_pairs [OF this] obtain ds where
      "length ds = length pairs"
      "rates = map (\<lambda>((m, f), d). BeamCXRate m wl d (self_permit_extrapolation self)) (zip pairs ds)"
      by auto
    from pairs_shape [OF this] show ?thesis .
  qed
  have total: "\<exists>rates. beam_cx_rate X h self donor receiver ri t = Inr rates"
    if wl: "wavelength X h self receiver (ri - 1) t = Inr wl"
      and rd: "\<forall>(m, f)\<in>set pairs. \<exists>d. adf12 X (posix_join (self_data_path self) f) t = Inr d"
    for wl
  proof -
    from loop_total [OF rd] obtain rates where
      "beam_cx_rate_loop X h self wl t (map (\<lambda>(m, f). VTuple [m, VStr f]) pairs) [] = Inr rates"
      by blast
    with wl cfg show ?thesis by (simp add: beam_cx_rate_def)
  qed
  from shape total show ?thesis by blast
qed

theorem beam_cx_rate_follows_configuration_witness:
  "config_lookup example_heap example_adas
     [KStr ''cxs'', KSpecies (Elem hydrogen), KSpecies (Elem carbon), KInt 6]
     = Inr (VList [VTuple [VInt 1, VStr ''file_a.dat''], VTuple [VInt 2, VStr ''file_b.dat'']]) \<and>
   beam_cx_rate example_externals example_heap example_adas deuterium carbon12 6
       (KTuple [KInt 8, KInt 7])
     = Inr [BeamCXRate (VInt 1) (VFloat 529.1) ''adf12 /data/file_a.dat'' False,
            BeamCXRate (VInt 2) (VFloat 529.1) ''adf12 /data/file_b.dat'' False] \<and>
   map rate_donor_metastable
     [BeamCXRate (VInt 1) (VFloat 529.1) ''adf12 /data/file_a.dat'' False,
      BeamCXRate (VInt 2) (VFloat 529.1) ''adf12 /data/file_b.dat'' False]
     = map fst [(VInt 1, ''file_a.dat''), (VInt 2, ''file_b.dat'')]"
proof -
  let ?X = example_externals and ?h = example_heap and ?a = example_adas
  let ?t = "KTuple [KInt 8, KInt 7]"
  let ?pairs = "[(VInt 1, ''file_a.dat''), (VInt 2, ''file_b.dat'')]"
  let ?rates = "[BeamCXRate (VInt 1) (VFloat 529.1) ''adf12 /data/file_a.dat'' False,
                 BeamCXRate (VInt 2) (VFloat 529.1) ''adf12 /data/file_b.dat'' False]"
  have cfg: "config_lookup ?h ?a
      [KStr ''cxs'', KSpecies (extract_element deuterium), KSpecies (extract_element carbon12),
       KInt 6]
      = Inr (VList (map (\<lambda>(m, f). VTuple [m, VStr f]) ?pairs))"
    by (simp add: example_defs)
  have wl: "wavelength ?X ?h ?a carbon12 (6 - 1) ?t = Inr (VFloat 529.1)"
    by (simp add: example_defs wavelength_def)
  have rd: "\<forall>(m, f)\<in>set ?pairs. \<exists>d. adf12 ?X (posix_join (self_data_path ?a) f) ?t = Inr d"
    by (simp add: example_externals_def)
  note th = beam_cx_rate_follows_configuration [OF cfg, of ?X ?t]
  from th wl rd obtain rates where
    ret: "beam_cx_rate ?X ?h ?a deuterium carbon12 6 ?t = Inr rates"
    by blast
  with th have shape: "length rates = length ?pairs"
    "\<forall>i<length ?pairs. rate_donor_metastable (rates ! i) = fst (?pairs ! i)"
    by blast+
  have res: "beam_cx_rate ?X ?h ?a deuterium carbon12 6 ?t = Inr ?rates"
    by (simp add: example_defs wavelength_def beam_cx_rate_def posix_join_def)
  with ret have "rates = ?rates" by simp
  with shape have "map rate_donor_metastable ?rates = map fst ?pairs"
    by (simp add: list_eq_iff_nth_eq)
  with cfg res show ?thesis by (simp add: deuterium_def carbon12_def)
qed

text \<open>
  C6. \<open>beam_cx_rate\<close> resolves the wavelength first, for the receiver as given at stage
  \<open>receiver_ionisation - 1\<close>: an exception of that \<open>wavelength\<close> call is the exception of
  the whole call, whatever the \<open>cxs\<close> branch holds, and the call returns only if the
  wavelength was resolved.
\<close>

theorem beam_cx_rate_wavelength_first:
  "(wavelength X h self receiver (ri - 1) t = Inl e
      \<longrightarrow> beam_cx_rate X h self donor receiver ri t = Inl e) \<and>
   (beam_cx_rate X h self donor receiver ri t = Inr rates
      \<longrightarrow> (\<exists>wl. wavelength X h self receiver (ri - 1) t = Inr wl))"
  by (cases "wavelength X h self receiver (ri - 1) t") (simp_all add: beam_cx_rate_def)

theorem beam_cx_rate_wavelength_first_witness:
  "wavelength example_externals example_heap example_adas carbon12 (5 - 1)
       (KTuple [KInt 8, KInt 7])
     = Inl (RuntimeError
         [VStr ''The requested wavelength data for (C12, 4, (8, 7)) is not available.'']) \<and>
   config_lookup example_heap example_adas
     [KStr ''cxs'', KSpecies (Elem hydrogen), KSpecies (Elem carbon), KInt 5] = Inl KeyError \<and>
   beam_cx_rate example_externals example_heap example_adas deuterium carbon12 5
       (KTuple [KInt 8, KInt 7])
     = Inl (RuntimeError
         [VStr ''The requested wavelength data for (C12, 4, (8, 7)) is not available.'']) \<and>
   (\<exists>wl. wavelength example_externals example_heap example_adas carbon12 (6 - 1)
       (KTuple [KInt 8, KInt 7]) = Inr wl)"
proof -
  let ?X = example_externals and ?h = example_heap and ?a = example_adas
  let ?t = "KTuple [KInt 8, KInt 7]"
  let ?e = "RuntimeError
         [VStr ''The requested wavelength data for (C12, 4, (8, 7)) is not available.'']"
  have wl: "wavelength ?X ?h ?a carbon12 (5 - 1) ?t = Inl ?e"
    by (simp add: example_defs wavelength_def wavelength_error_def)
  have cxs: "config_lookup ?h ?a
      [KStr ''cxs'', KSpecies (Elem hydrogen), KSpecies (Elem carbon), KInt 5] = Inl KeyError"
    by (simp add: example_defs)
  from wl beam_cx_rate_wavelength_first [of ?X ?h ?a carbon12 5 ?t ?e deuterium]
  have fails: "beam_cx_rate ?X ?h ?a deuterium carbon12 5 ?t = Inl ?e"
    by blast
  have "beam_cx_rate ?X ?h ?a deuterium carbon12 6 ?t
     = Inr [BeamCXRate (VInt 1) (VFloat 529.1) ''adf12 /data/file_a.dat'' False,
            BeamCXRate (VInt 2) (VFloat 529.1) ''adf12 /data/file_b.dat'' False]"
    by (simp add: example_defs wavelength_def beam_cx_rate_def posix_join_def)
  with beam_cx_rate_wavelength_first [of ?X ?h ?a carbon12 6 ?t _ deuterium]
  have "\<exists>wl. wavelength ?X ?h ?a carbon12 (6 - 1) ?t = Inr wl"
    by blast
  with wl cxs fails show ?thesis by blast
qed

text \<open>
  C10. The inner wavelength lookup of \<open>beam_cx_rate\<close> is given the receiver before it is
  normalised. For a receiver Isotope with an isotope-level wavelength entry, every rate
  object of the returned sequence carries that isotope-level value; the Element-level
  value is carried when the isotope-level lookup misses.
\<close>

theorem beam_cx_rate_isotope_wavelength:
  "(config_lookup h self [KStr ''wavelength'', KSpecies (Isotope s e m), KInt (ri - 1), t] = Inr w \<and>
    beam_cx_rate X h self donor (Isotope s e m) ri t = Inr rates
      \<longrightarrow> (\<forall>r\<in>set rates. rate_wavelength r = w)) \<and>
   (config_lookup h self [KStr ''wavelength'', KSpecies (Isotope s e m), KInt (ri - 1), t] = Inl KeyError \<and>
    config_lookup h self [KStr ''wavelength'', KSpecies (Elem e), KInt (ri - 1), t] = Inr w' \<and>
    beam_cx_rate X h self donor (Isotope s e m) ri t = Inr rates
      \<longrightarrow> (\<forall>r\<in>set rates. rate_wavelength r = w'))"
proof -
  have main: "\<forall>r\<in>set rates. rate_wavelength r = wl"
    if wl: "wavelength X h self (Isotope s e m) (ri - 1) t = Inr wl"
      and res: "beam_cx_rate X h self donor (Isotope s e m) ri t = Inr rates" for wl
  proof -
    from res wl obtain items where
      "beam_cx_rate_loop X h self wl t items [] = Inr rates"
      by (auto simp: beam_cx_rate_def Let_def split: sum.splits if_splits)
    from loop_wavelength [OF this] show ?thesis by simp
  qed
  show ?thesis
  proof (intro conjI impI)
    assume a: "config_lookup h self [KStr ''wavelength'', KSpecies (Isotope s e m), KInt (ri - 1), t] = Inr w \<and>
      beam_cx_rate X h self donor (Isotope s e m) ri t = Inr rates"
    then have "wavelength X h self (Isotope s e m) (ri - 1) t = Inr w"
      by (simp add: wavelength_def)
    with a show "\<forall>r\<in>set rates. rate_wavelength r = w" using main by blast
  next
    assume a: "config_lookup h self [KStr ''wavelength'', KSpecies (Isotope s e m), KInt (ri - 1), t] = Inl KeyError \<and>
      config_lookup h self [KStr ''wavelength'', KSpecies (Elem e), KInt (ri - 1), t] = Inr w' \<and>
      beam_cx_rate X h self donor (Isotope s e m) ri t = Inr rates"
    then have "wavelength X h self (Isotope s e m) (ri - 1) t = Inr w'"
      by (simp add: wavelength_def)
    with a show "\<forall>r\<in>set rates. rate_wavelength r = w'" using main by blast
  qed
qed

theorem beam_cx_rate_isotope_wavelength_witness:
  "config_lookup example_heap example_adas
     [KStr ''wavelength'', KSpecies deuterium, KInt 0, KTuple [KInt 3, KInt 2]]
     = Inr (VFloat 656.1) \<and>
   config_lookup example_heap example_adas
     [KStr ''wavelength'', KSpecies (Elem hydrogen), KInt 0, KTuple [KInt 3, KInt 2]]
     = Inr (VFloat 656.28) \<and>
   beam_cx_rate example_externals example_heap example_adas (Elem hydrogen) deuterium 1
       (KTuple [KInt 3, KInt 2])
     = Inr [BeamCXRate (VInt 1) (VFloat 656.1) ''adf12 /data/h.dat'' False] \<and>
   rate_wavelength (BeamCXRate (VInt 1) (VFloat 656.1) ''adf12 /data/h.dat'' False)
     = VFloat 656.1 \<and>
   rate_wavelength (BeamCXRate (VInt 1) (VFloat 529.1) ''adf12 /data/file_a.dat'' False)
     = VFloat 529.1"
proof -
  let ?X = example_externals and ?h = example_heap and ?a = example_adas
  let ?t = "KTuple [KInt 3, KInt 2]" and ?t' = "KTuple [KInt 8, KInt 7]"
  let ?r = "BeamCXRate (VInt 1) (VFloat 656.1) ''adf12 /data/h.dat'' False"
  let ?r1 = "BeamCXRate (VInt 1) (VFloat 529.1) ''adf12 /data/file_a.dat'' False"
  let ?r2 = "BeamCXRate (VInt 2) (VFloat 529.1) ''adf12 /data/file_b.dat'' False"
  have iso: "config_lookup ?h ?a
      [KStr ''wavelength'', KSpecies (Isotope ''D'' hydrogen 2), KInt (1 - 1), ?t]
      = Inr (VFloat 656.1)"
    by (simp add: example_defs)
  have el: "config_lookup ?h ?a [KStr ''wavelength'', KSpecies (Elem hydrogen), KInt 0, ?t]
      = Inr (VFloat 656.28)"
    by (simp add: example_defs)
  have res: "beam_cx_rate ?X ?h ?a (Elem hydrogen) (Isotope ''D'' hydrogen 2) 1 ?t = Inr [?r]"
    by (simp add: example_defs wavelength_def beam_cx_rate_def posix_join_def)
  have miss: "config_lookup ?h ?a
      [KStr ''wavelength'', KSpecies (Isotope ''C12'' carbon 12), KInt (6 - 1), ?t'] = Inl KeyError"
    by (simp add: example_defs)
  have el': "config_lookup ?h ?a
      [KStr ''wavelength'', KSpecies (Elem carbon), KInt (6 - 1), ?t'] = Inr (VFloat 529.1)"
    by (simp add: example_defs)
  have res': "beam_cx_rate ?X ?h ?a (Elem hydrogen) (Isotope ''C12'' carbon 12) 6 ?t'
      = Inr [?r1, ?r2]"
    by (simp add: example_defs wavelength_def beam_cx_rate_def posix_join_def)
  from beam_cx_rate_isotope_wavelength
    [of ?h ?a "''D''" hydrogen 2 1 ?t "VFloat 656.1" ?X "Elem hydrogen" "[?r]"] iso res
  have 1: "rate_wavelength ?r = VFloat 656.1" by simp
  from beam_cx_rate_isotope_wavelength
    [of ?h ?a "''C12''" carbon 12 6 ?t' _ ?X "Elem hydrogen" "[?r1, ?r2]" "VFloat 529.1"]
    miss el' res'
  have 2: "rate_wavelength ?r1 = VFloat 529.1" by simp
  from iso el res 1 2 show ?thesis by (simp add: deuterium_def)
qed

subsection \<open>Missing entries\<close>

text \<open>
  C2. A query whose configuration lookup misses (the subscript chain raises \<open>KeyError\<close>)
  fails with the method's \<open>RuntimeError\<close>, whose message is formatted from the query
  parameters; no rate object is returned. For \<open>wavelength\<close> the lookup misses when the
  direct entry and, for an Isotope, the parent Element's entry are both absent. In the
  four methods that resolve a wavelength first, a failure of that call is the failure of
  the method; otherwise the miss of the method's own branch raises the method's error.
\<close>

theorem missing_entry_raises:
  "(config_lookup h self [KStr ''wavelength'', KSpecies ion, KInt i, t] = Inl KeyError \<and>
    config_lookup h self [KStr ''wavelength'', KSpecies (extract_element ion), KInt i, t]
      = Inl KeyError
      \<longrightarrow> wavelength X h self ion i t = Inl (wavelength_error X ion i t)) \<and>
   (wavelength X h self receiver (ri - 1) t = Inl e
      \<longrightarrow> beam_cx_rate X h self donor receiver ri t = Inl e) \<and>
   (wavelength X h self receiver (ri - 1) t = Inr wl \<and>
    config_lookup h self
      [KStr ''cxs'', KSpecies (extract_element donor), KSpecies (extract_element receiver), KInt ri]
      = Inl KeyError
      \<longrightarrow> beam_cx_rate X h self donor receiver ri t
            = Inl (beam_cx_rate_error X (extract_element donor) (extract_element receiver) ri t)) \<and>
   (config_lookup h self
      [KStr ''bms'', KSpecies (extract_element beam), KSpecies (extract_element plasma), KInt i]
      = Inl KeyError
      \<longrightarrow> beam_stopping_rate X h self beam plasma i
            = Inl (beam_stopping_rate_error X (extract_element beam) (extract_element plasma) i)) \<and>
   (config_lookup h self
      [KStr ''bmp'', KSpecies (extract_element beam), ms, KSpecies (extract_element plasma), KInt i]
      = Inl KeyError
      \<longrightarrow> beam_population_rate X h self beam ms plasma i
            = Inl (beam_population_rate_error X (extract_element beam) ms
                     (extract_element plasma) i)) \<and>
   (wavelength X h self beam 0 t = Inl e
      \<longrightarrow> beam_emission_rate X h self beam plasma i t = Inl e) \<and>
   (wavelength X h self beam 0 t = Inr wl \<and>
    config_lookup h self
      [KStr ''bme'', KSpecies (extract_element beam), KSpecies (extract_element plasma), KInt i, t]
      = Inl KeyError
      \<longrightarrow> beam_emission_rate X h self beam plasma i t
            = Inl (beam_emission_rate_error X (extract_element beam) (extract_element plasma) i t)) \<and>
   (wavelength X h self ion i t = Inl e
      \<longrightarrow> impact_excitation_rate X h self ion i t = Inl e \<and>
          recombination_rate X h self ion i t = Inl e) \<and>
   (wavelength X h self ion i t = Inr wl \<and>
    config_lookup h self [KStr ''excitation'', KSpecies (extract_element ion), KInt i, t]
      = Inl KeyError
      \<longrightarrow> impact_excitation_rate X h self ion i t
            = Inl (impact_excitation_rate_error X (extract_element ion) i t)) \<and>
   (wavelength X h self ion i t = Inr wl \<and>
    config_lookup h self [KStr ''recombination'', KSpecies (extract_element ion), KInt i, t]
      = Inl KeyError
      \<longrightarrow> recombination_rate X h self ion i t
            = Inl (recombination_rate_error X (extract_element ion) i t))"
  by (intro conjI impI; (elim conjE)?;
      simp add: wavelength_miss beam_cx_rate_wavelength_fails beam_cx_rate_miss
        beam_stopping_rate_miss beam_population_rate_miss
        beam_emission_rate_wavelength_fails beam_emission_rate_miss
        impact_excitation_rate_wavelength_fails impact_excitation_rate_miss
        recombination_rate_wavelength_fails recombination_rate_miss)

theorem missing_entry_raises_witness:
  "wavelength example_externals example_heap example_adas carbon12 4 (KTuple [KInt 8, KInt 7])
     = Inl (RuntimeError
         [VStr ''The requested wavelength data for (C12, 4, (8, 7)) is not available.'']) \<and>
   beam_cx_rate example_externals example_heap example_adas deuterium carbon12 5
       (KTuple [KInt 8, KInt 7])
     = Inl (RuntimeError
         [VStr ''The requested wavelength data for (C12, 4, (8, 7)) is not available.'']) \<and>
   beam_cx_rate example_externals example_heap example_adas (Elem carbon) carbon12 6
       (KTuple [KInt 8, KInt 7])
     = Inl (RuntimeError
         [VStr ''The requested beam cx rate data does not have an entry in the Open-ADAS configuration(donor ion: C, receiver ion: C, ionisation: 6, transition: (8, 7)).'']) \<and>
   beam_stopping_rate example_externals example_heap example_adas deuterium carbon12 5
     = Inl (RuntimeError
         [VStr ''The requested beam stopping rate data does not have an entry in the Open-ADAS configuration (beam ion: H, plasma ion: C, ionisation: 5).'']) \<and>
   beam_population_rate example_externals example_heap example_adas deuterium (KInt 3) carbon12 6
     = Inl (RuntimeError
         [VStr ''The requested beam population rate data does not have an entry in the Open-ADAS configuration (beam ion: H, metastable: 3, plasma ion: C, ionisation: 6).'']) \<and>
   beam_emission_rate example_externals example_heap example_adas deuterium carbon12 6
       (KTuple [KInt 4, KInt 2])
     = Inl (RuntimeError
         [VStr ''The requested wavelength data for (D, 0, (4, 2)) is not available.'']) \<and>
   beam_emission_rate example_externals example_heap example_adas deuterium carbon12 5
       (KTuple [KInt 3, KInt 2])
     = Inl (RuntimeError
         [VStr ''The requested beam emission rate data does not have an entry in the Open-ADAS configuration (beam ion: H, plasma ion: C, ionisation: 5, transition: (3, 2)).'']) \<and>
   impact_excitation_rate example_externals example_heap example_adas carbon12 4
       (KTuple [KInt 8, KInt 7])
     = Inl (RuntimeError
         [VStr ''The requested wavelength data for (C12, 4, (8, 7)) is not available.'']) \<and>
   recombination_rate example_externals example_heap example_adas carbon12 4
       (KTuple [KInt 8, KInt 7])
     = Inl (RuntimeError
         [VStr ''The requested wavelength data for (C12, 4, (8, 7)) is not available.'']) \<and>
   impact_excitation_rate example_externals example_heap example_adas (Elem hydrogen) 0
       (KTuple [KInt 3, KInt 2])
     = Inr (ImpactExcitationRate (VFloat 656.28) ''adf15 /data/exch.dat'' False) \<and>
   recombination_rate example_externals example_heap example_adas deuterium 0
       (KTuple [KInt 3, KInt 2])
     = Inl (RuntimeError
         [VStr ''The requested recombination rate data does not have an entry in the Open-ADAS configuration (ion: H, ionisation: 0, transition: (3, 2)).''])"
proof -
  let ?X = example_externals and ?h = example_heap and ?a = example_adas
  let ?t = "KTuple [KInt 8, KInt 7]" and ?u = "KTuple [KInt 3, KInt 2]"
  let ?v = "KTuple [KInt 4, KInt 2]"
  let ?ew = "RuntimeError
         [VStr ''The requested wavelength data for (C12, 4, (8, 7)) is not available.'']"
  let ?ed = "RuntimeError
         [VStr ''The requested wavelength data for (D, 0, (4, 2)) is not available.'']"
  have w_miss: "config_lookup ?h ?a [KStr ''wavelength'', KSpecies carbon12, KInt 4, ?t]
        = Inl KeyError"
    "config_lookup ?h ?a [KStr ''wavelength'', KSpecies (extract_element carbon12), KInt 4, ?t]
        = Inl KeyError"
    by (simp_all add: example_defs)
  have d_miss: "config_lookup ?h ?a [KStr ''wavelength'', KSpecies deuterium, KInt 0, ?v]
        = Inl KeyError"
    "config_lookup ?h ?a [KStr ''wavelength'', KSpecies (extract_element deuterium), KInt 0, ?v]
        = Inl KeyError"
    by (simp_all add: example_defs)
  have w_c: "wavelength ?X ?h ?a carbon12 (6 - 1) ?t = Inr (VFloat 529.1)"
    and w_d: "wavelength ?X ?h ?a deuterium 0 ?u = Inr (VFloat 656.1)"
    by (simp_all add: example_defs wavelength_def)
  have cxs: "config_lookup ?h ?a
      [KStr ''cxs'', KSpecies (extract_element (Elem carbon)),
       KSpecies (extract_element carbon12), KInt 6] = Inl KeyError"
    and bms: "config_lookup ?h ?a
      [KStr ''bms'', KSpecies (extract_element deuterium),
       KSpecies (extract_element carbon12), KInt 5] = Inl KeyError"
    and bmp: "config_lookup ?h ?a
      [KStr ''bmp'', KSpecies (extract_element deuterium), KInt 3,
       KSpecies (extract_element carbon12), KInt 6] = Inl KeyError"
    and bme: "config_lookup ?h ?a
      [KStr ''bme'', KSpecies (extract_element deuterium),
       KSpecies (extract_element carbon12), KInt 5, ?u] = Inl KeyError"
    and rec: "config_lookup ?h ?a
      [KStr ''recombination'', KSpecies (extract_element deuterium), KInt 0, ?u] = Inl KeyError"
    by (simp_all add: example_defs)
  note c1 = missing_entry_raises [THEN conjunct1, THEN mp, OF conjI]
    and c2 = missing_entry_raises [THEN conjunct2, THEN conjunct1, THEN mp]
    and c3 = missing_entry_raises [THEN conjunct2, THEN conjunct2, THEN conjunct1, THEN mp,
        OF conjI]
    and c4 = missing_entry_raises [THEN conjunct2, THEN conjunct2, THEN conjunct2,
        THEN conjunct1, THEN mp]
    and c5 = missing_entry_raises [THEN conjunct2, THEN conjunct2, THEN conjunct2,
        THEN conjunct2, THEN conjunct1, THEN mp]
    and c6 = missing_entry_raises [THEN conjunct2, THEN conjunct2, THEN conjunct2,
        THEN conjunct2, THEN conjunct2, THEN conjunct1, THEN mp]
    and c7 = missing_entry_raises [THEN conjunct2, THEN conjunct2, THEN conjunct2,
        THEN conjunct2, THEN conjunct2, THEN conjunct2, THEN conjunct1, THEN mp, OF conjI]
    and c8 = missing_entry_raises [THEN conjunct2, THEN conjunct2, THEN conjunct2,
        THEN conjunct2, THEN conjunct2, THEN conjunct2, THEN conjunct2, THEN conjunct1, THEN mp]
    and c10 = missing_entry_raises [THEN conjunct2, THEN conjunct2, THEN conjunct2,
        THEN conjunct2, THEN conjunct2, THEN conjunct2, THEN conjunct2, THEN conjunct2,
        THEN conjunct2, THEN mp, OF conjI]
  have 1: "wavelength ?X ?h ?a carbon12 4 ?t = Inl (wavelength_error ?X carbon12 4 ?t)"
    by (rule c1 [OF w_miss])
  have 12: "wavelength ?X ?h ?a deuterium 0 ?v = Inl (wavelength_error ?X deuterium 0 ?v)"
    by (rule c1 [OF d_miss])
  have 13: "wavelength ?X ?h ?a carbon12 (5 - 1) ?t = Inl (wavelength_error ?X carbon12 4 ?t)"
    using 1 by simp
  have 2: "beam_cx_rate ?X ?h ?a deuterium carbon12 5 ?t
     = Inl (wavelength_error ?X carbon12 4 ?t)"
    by (rule c2 [OF 13])
  have 3: "beam_cx_rate ?X ?h ?a (Elem carbon) carbon12 6 ?t
     = Inl (beam_cx_rate_error ?X (extract_element (Elem carbon)) (extract_element carbon12) 6 ?t)"
    by (rule c3 [OF w_c cxs])
  have 4: "beam_stopping_rate ?X ?h ?a deuterium carbon12 5
     = Inl (beam_stopping_rate_error ?X (extract_element deuterium) (extract_element carbon12) 5)"
    by (rule c4 [OF bms])
  have 5: "beam_population_rate ?X ?h ?a deuterium (KInt 3) carbon12 6
     = Inl (beam_population_rate_error ?X (extract_element deuterium) (KInt 3)
              (extract_element carbon12) 6)"
    by (rule c5 [OF bmp])
  have 6: "beam_emission_rate ?X ?h ?a deuterium carbon12 6 ?v
     = Inl (wavelength_error ?X deuterium 0 ?v)"
    by (rule c6 [OF 12])
  have 7: "beam_emission_rate ?X ?h ?a deuterium carbon12 5 ?u
     = Inl (beam_emission_rate_error ?X (extract_element deuterium) (extract_element carbon12) 5 ?u)"
    by (rule c7 [OF w_d bme])
  have 8: "impact_excitation_rate ?X ?h ?a carbon12 4 ?t = Inl (wavelength_error ?X carbon12 4 ?t)"
    "recombination_rate ?X ?h ?a carbon12 4 ?t = Inl (wavelength_error ?X carbon12 4 ?t)"
    using c8 [OF 1] by simp_all
  have 9: "impact_excitation_rate ?X ?h ?a (Elem hydrogen) 0 ?u
     = Inr (ImpactExcitationRate (VFloat 656.28) ''adf15 /data/exch.dat'' False)"
    by (simp add: example_eval impact_excitation_rate_def)
  have 10: "recombination_rate ?X ?h ?a deuterium 0 ?u
     = Inl (recombination_rate_error ?X (extract_element deuterium) 0 ?u)"
    by (rule c10 [OF w_d rec])
  have errs:
    "wavelength_error ?X carbon12 4 ?t = ?ew"
    "wavelength_error ?X deuterium 0 ?v = ?ed"
    "beam_cx_rate_error ?X (extract_element (Elem carbon)) (extract_element carbon12) 6 ?t
      = RuntimeError
         [VStr ''The requested beam cx rate data does not have an entry in the Open-ADAS configuration(donor ion: C, receiver ion: C, ionisation: 6, transition: (8, 7)).'']"
    "beam_stopping_rate_error ?X (extract_element deuterium) (extract_element carbon12) 5
      = RuntimeError
         [VStr ''The requested beam stopping rate data does not have an entry in the Open-ADAS configuration (beam ion: H, plasma ion: C, ionisation: 5).'']"
    "beam_population_rate_error ?X (extract_element deuterium) (KInt 3) (extract_element carbon12) 6
      = RuntimeError
         [VStr ''The requested beam population rate data does not have an entry in the Open-ADAS configuration (beam ion: H, metastable: 3, plasma ion: C, ionisation: 6).'']"
    "beam_emission_rate_error ?X (extract_element deuterium) (extract_element carbon12) 5 ?u
      = RuntimeError
         [VStr ''The requested beam emission rate data does not have an entry in the Open-ADAS configuration (beam ion: H, plasma ion: C, ionisation: 5, transition: (3, 2)).'']"
    "recombination_rate_error ?X (extract_element deuterium) 0 ?u
      = RuntimeError
         [VStr ''The requested recombination rate data does not have an entry in the Open-ADAS configuration (ion: H, ionisation: 0, transition: (3, 2)).'']"
    by (simp_all add: wavelength_error_def beam_cx_rate_error_def beam_stopping_rate_error_def
        beam_population_rate_error_def beam_emission_rate_error_def
        recombination_rate_error_def example_externals_def example_str_def str_int_def
        hydrogen_def carbon_def deuterium_def carbon12_def)
  show ?thesis
    unfolding 1 2 3 4 5 6 7 8 9 10 errs
    by simp
qed

text \<open>
  C3. The claim that the error carries the query parameters as structured context fails:
  the source raises \<open>RuntimeError(message)\<close>, whose only argument is the formatted
  string. In the example the failed wavelength query for carbon-12 at stage 4 raises an
  error with exactly one argument, the message; neither the species, nor its symbol, nor
  the stage, nor the transition is an argument of its own.
\<close>

theorem error_context_counterexample:
  "(case wavelength example_externals example_heap example_adas carbon12 4
           (KTuple [KInt 8, KInt 7]) of
      Inl e \<Rightarrow>
        exc_args e
          = [VStr ''The requested wavelength data for (C12, 4, (8, 7)) is not available.''] \<and>
        VSpecies carbon12 \<notin> set (exc_args e) \<and>
        VStr ''C12'' \<notin> set (exc_args e) \<and>
        VInt 4 \<notin> set (exc_args e) \<and>
        VTuple [VInt 8, VInt 7] \<notin> set (exc_args e)
    | Inr v \<Rightarrow> False)"
  by (simp add: example_eval)

text \<open>
  C3, as amended. Whenever \<open>wavelength\<close> raises a \<open>RuntimeError\<close>, and whenever the own
  branch of one of the six rate methods misses, the error has exactly one argument: the
  message string formatted from the species symbols (after normalisation in the rate
  methods), the ionisation stage, the transition and, for \<open>beam_population_rate\<close>, the
  metastable level.
\<close>

theorem failure_carries_only_the_message:
  "(wavelength X h self ion i t = Inl (RuntimeError args)
      \<longrightarrow> args = [VStr (py_format
             ''The requested wavelength data for ({}, {}, {}) is not available.''
             [symbol ion, str_of X (KInt i), str_of X t])]) \<and>
   (wavelength X h self receiver (ri - 1) t = Inr wl \<and>
    config_lookup h self
      [KStr ''cxs'', KSpecies (extract_element donor), KSpecies (extract_element receiver), KInt ri]
      = Inl KeyError
      \<longrightarrow> beam_cx_rate X h self donor receiver ri t
            = Inl (RuntimeError [VStr (py_format
                (''The requested beam cx rate data does not have an entry in the Open-ADAS configuration'' @
                 ''(donor ion: {}, receiver ion: {}, ionisation: {}, transition: {}).'')
                [symbol (extract_element donor), symbol (extract_element receiver),
                 str_of X (KInt ri), str_of X t])])) \<and>
   (config_lookup h self
      [KStr ''bms'', KSpecies (extract_element beam), KSpecies (extract_element plasma), KInt i]
      = Inl KeyError
      \<longrightarrow> beam_stopping_rate X h self beam plasma i
            = Inl (RuntimeError [VStr (py_format
                (''The requested beam stopping rate data does not have an entry in the Open-ADAS '' @
                 ''configuration (beam ion: {}, plasma ion: {}, ionisation: {}).'')
                [symbol (extract_element beam), symbol (extract_element plasma),
                 str_of X (KInt i)])])) \<and>
   (config_lookup h self
      [KStr ''bmp'', KSpecies (extract_element beam), ms, KSpecies (extract_element plasma), KInt i]
      = Inl KeyError
      \<longrightarrow> beam_population_rate X h self beam ms plasma i
            = Inl (RuntimeError [VStr (py_format
                (''The requested beam population rate data does not have an entry in the '' @
                 ''Open-ADAS configuration (beam ion: {}, metastable: {}, plasma ion: {}, ionisation: {}).'')
                [symbol (extract_element beam), str_of X ms, symbol (extract_element plasma),
                 str_of X (KInt i)])])) \<and>
   (wavelength X h self beam 0 t = Inr wl \<and>
    config_lookup h self
      [KStr ''bme'', KSpecies (extract_element beam), KSpecies (extract_element plasma), KInt i, t]
      = Inl KeyError
      \<longrightarrow> beam_emission_rate X h self beam plasma i t
            = Inl (RuntimeError [VStr (py_format
                (''The requested beam emission rate data does not have an entry in the '' @
                 ''Open-ADAS configuration (beam ion: {}, plasma ion: {}, ionisation: {}, transition: {}).'')
                [symbol (extract_element beam), symbol (extract_element plasma),
                 str_of X (KInt i), str_of X t])])) \<and>
   (wavelength X h self ion i t = Inr wl \<and>
    config_lookup h self [KStr ''excitation'', KSpecies (extract_element ion), KInt i, t]
      = Inl KeyError
      \<longrightarrow> impact_excitation_rate X h self ion i t
            = Inl (RuntimeError [VStr (py_format
                (''The requested impact excitation rate data does not have an entry in the '' @
                 ''Open-ADAS configuration (ion: {}, ionisation: {}, transition: {}).'')
                [symbol (extract_element ion), str_of X (KInt i), str_of X t])])) \<and>
   (wavelength X h self ion i t = Inr wl \<and>
    config_lookup h self [KStr ''recombination'', KSpecies (extract_element ion), KInt i, t]
      = Inl KeyError
      \<longrightarrow> recombination_rate X h self ion i t
            = Inl (RuntimeError [VStr (py_format
                (''The requested recombination rate data does not have an entry in the '' @
                 ''Open-ADAS configuration (ion: {}, ionisation: {}, transition: {}).'')
                [symbol (extract_element ion), str_of X (KInt i), str_of X t])]))"
proof (intro conjI impI; (elim conjE)?)
  assume "wavelength X h self ion i t = Inl (RuntimeError args)"
  from wavelength_RuntimeError [OF this]
  show "args = [VStr (py_format
             ''The requested wavelength data for ({}, {}, {}) is not available.''
             [symbol ion, str_of X (KInt i), str_of X t])]"
    by (simp add: wavelength_error_def)
qed (simp_all only: beam_cx_rate_miss [unfolded beam_cx_rate_error_def]
      beam_stopping_rate_miss [unfolded beam_stopping_rate_error_def]
      beam_population_rate_miss [unfolded beam_population_rate_error_def]
      beam_emission_rate_miss [unfolded beam_emission_rate_error_def]
      impact_excitation_rate_miss [unfolded impact_excitation_rate_error_def]
      recombination_rate_miss [unfolded recombination_rate_error_def])

theorem failure_carries_only_the_message_witness:
  "wavelength example_externals example_heap example_adas carbon12 4 (KTuple [KInt 8, KInt 7])
     = Inl (RuntimeError
         [VStr ''The requested wavelength data for (C12, 4, (8, 7)) is not available.'']) \<and>
   beam_cx_rate example_externals example_heap example_adas (Elem carbon) carbon12 6
       (KTuple [KInt 8, KInt 7])
     = Inl (RuntimeError
         [VStr ''The requested beam cx rate data does not have an entry in the Open-ADAS configuration(donor ion: C, receiver ion: C, ionisation: 6, transition: (8, 7)).'']) \<and>
   beam_stopping_rate example_externals example_heap example_adas (Elem hydrogen) (Elem carbon) 5
     = Inl (RuntimeError
         [VStr ''The requested beam stopping rate data does not have an entry in the Open-ADAS configuration (beam ion: H, plasma ion: C, ionisation: 5).'']) \<and>
   beam_population_rate example_externals example_heap example_adas
       (Elem hydrogen) (KInt 1) (Elem carbon) 6
     = Inl (RuntimeError
         [VStr ''The requested beam population rate data does not have an entry in the Open-ADAS configuration (beam ion: H, metastable: 1, plasma ion: C, ionisation: 6).'']) \<and>
   beam_emission_rate example_externals example_heap example_adas (Elem hydrogen) (Elem carbon) 4
       (KTuple [KInt 3, KInt 2])
     = Inl (RuntimeError
         [VStr ''The requested beam emission rate data does not have an entry in the Open-ADAS configuration (beam ion: H, plasma ion: C, ionisation: 4, transition: (3, 2)).'']) \<and>
   impact_excitation_rate example_externals example_heap example_adas deuterium 0
       (KTuple [KInt 3, KInt 2])
     = Inr (ImpactExcitationRate (VFloat 656.1) ''adf15 /data/exch.dat'' False) \<and>
   impact_excitation_rate example_externals (heap_of [[(KStr ''wavelength'', VDict 1)],
         [(KSpecies (Elem carbon), VDict 2)], [(KInt 5, VDict 3)],
         [(KTuple [KInt 8, KInt 7], VFloat 529.1)]])
       \<lparr>self_data_path = ''/data'', self_config = 0, self_permit_extrapolation = True\<rparr>
       carbon12 5 (KTuple [KInt 8, KInt 7])
     = Inl (RuntimeError
         [VStr ''The requested impact excitation rate data does not have an entry in the Open-ADAS configuration (ion: C, ionisation: 5, transition: (8, 7)).'']) \<and>
   recombination_rate example_externals example_heap example_adas (Elem hydrogen) 0
       (KTuple [KInt 3, KInt 2])
     = Inl (RuntimeError
         [VStr ''The requested recombination rate data does not have an entry in the Open-ADAS configuration (ion: H, ionisation: 0, transition: (3, 2)).''])"
proof -
  let ?X = example_externals and ?h = example_heap and ?a = example_adas
  let ?t = "KTuple [KInt 8, KInt 7]" and ?u = "KTuple [KInt 3, KInt 2]"
  let ?h' = "heap_of [[(KStr ''wavelength'', VDict 1)],
         [(KSpecies (Elem carbon), VDict 2)], [(KInt 5, VDict 3)],
         [(KTuple [KInt 8, KInt 7], VFloat 529.1)]]"
  let ?a' = "\<lparr>self_data_path = ''/data'', self_config = 0, self_permit_extrapolation = True\<rparr>"
  note th = failure_carries_only_the_message
  note c1 = th [THEN conjunct1, THEN mp]
    and c2 = th [THEN conjunct2, THEN conjunct1, THEN mp, OF conjI]
    and c3 = th [THEN conjunct2, THEN conjunct2, THEN conjunct1, THEN mp]
    and c4 = th [THEN conjunct2, THEN conjunct2, THEN conjunct2, THEN conjunct1, THEN mp]
    and c5 = th [THEN conjunct2, THEN conjunct2, THEN conjunct2, THEN conjunct2,
        THEN conjunct1, THEN mp, OF conjI]
    and c6 = th [THEN conjunct2, THEN conjunct2, THEN conjunct2, THEN conjunct2,
        THEN conjunct2, THEN conjunct1, THEN mp, OF conjI]
    and c7 = th [THEN conjunct2, THEN conjunct2, THEN conjunct2, THEN conjunct2,
        THEN conjunct2, THEN conjunct2, THEN mp, OF conjI]
  have n: "extract_element (Elem hydrogen) = Elem hydrogen"
    "extract_element (Elem carbon) = Elem carbon" "extract_element carbon12 = Elem carbon"
    "symbol (Elem hydrogen) = ''H''" "symbol (Elem carbon) = ''C''" "symbol carbon12 = ''C12''"
    "str_of ?X (KInt 0) = ''0''" "str_of ?X (KInt 1) = ''1''" "str_of ?X (KInt 4) = ''4''"
    "str_of ?X (KInt 5) = ''5''" "str_of ?X (KInt 6) = ''6''"
    "str_of ?X ?t = ''(8, 7)''" "str_of ?X ?u = ''(3, 2)''"
    by (simp_all add: example_externals_def example_str_def str_int_def hydrogen_def carbon_def
        carbon12_def)
  have w: "wavelength ?X ?h ?a carbon12 4 ?t
      = Inl (RuntimeError
          [VStr ''The requested wavelength data for (C12, 4, (8, 7)) is not available.''])"
    and w_c: "wavelength ?X ?h ?a carbon12 (6 - 1) ?t = Inr (VFloat 529.1)"
    and w_h: "wavelength ?X ?h ?a (Elem hydrogen) 0 ?u = Inr (VFloat 656.28)"
    and w_c': "wavelength ?X ?h' ?a' carbon12 5 ?t = Inr (VFloat 529.1)"
    by (simp_all add: example_eval)
  have cxs: "config_lookup ?h ?a
      [KStr ''cxs'', KSpecies (extract_element (Elem carbon)),
       KSpecies (extract_element carbon12), KInt 6] = Inl KeyError"
    and bms: "config_lookup ?h ?a
      [KStr ''bms'', KSpecies (extract_element (Elem hydrogen)),
       KSpecies (extract_element (Elem carbon)), KInt 5] = Inl KeyError"
    and bmp: "config_lookup ?h ?a
      [KStr ''bmp'', KSpecies (extract_element (Elem hydrogen)), KInt 1,
       KSpecies (extract_element (Elem carbon)), KInt 6] = Inl KeyError"
    and bme: "config_lookup ?h ?a
      [KStr ''bme'', KSpecies (extract_element (Elem hydrogen)),
       KSpecies (extract_element (Elem carbon)), KInt 4, ?u] = Inl KeyError"
    and exc: "config_lookup ?h' ?a'
      [KStr ''excitation'', KSpecies (extract_element carbon12), KInt 5, ?t] = Inl KeyError"
    and rec: "config_lookup ?h ?a
      [KStr ''recombination'', KSpecies (extract_element (Elem hydrogen)), KInt 0, ?u]
      = Inl KeyError"
    by (simp_all add: example_defs)
  have 1: "[VStr ''The requested wavelength data for (C12, 4, (8, 7)) is not available.'']
      = [VStr (py_format ''The requested wavelength data for ({}, {}, {}) is not available.''
           [symbol carbon12, str_of ?X (KInt 4), str_of ?X ?t])]"
    by (rule c1 [OF w])
  have 8: "impact_excitation_rate ?X ?h ?a deuterium 0 ?u
      = Inr (ImpactExcitationRate (VFloat 656.1) ''adf15 /data/exch.dat'' False)"
    by (simp add: example_eval impact_excitation_rate_def)
  show ?thesis
    unfolding w 8 c2 [OF w_c cxs] c3 [OF bms] c4 [OF bmp] c5 [OF w_h bme] c6 [OF w_c' exc]
      c7 [OF w_h rec] n
    using 1 by simp
qed

subsection \<open>The configuration accessor\<close>

text \<open>
  The copy the accessor returns is a new top-level dictionary with the items of the stored
  one: an assignment at its top level does not reach the stored dictionary.
\<close>

lemma config_copies_top_level:
  assumes "self_config self < next_free h" and "config h self = (c, h')"
  shows "c \<noteq> self_config self"
    and "objs h' c = objs h (self_config self)"
    and "objs (dict_setitem h' c k v) (self_config self) = objs h (self_config self)"
  using assms by (auto simp: config_def dict_copy_def alloc_def dict_setitem_def)

text \<open>
  C4. The accessor \<open>config\<close> returns \<open>self._config.copy()\<close>, a shallow copy: the new
  top-level dictionary (address 32 in the example) holds the same nested dictionary
  objects as the stored one (address 31). After
  \<open>c = adas.config; c["wavelength"][carbon][5][(8, 7)] = 1.0\<close>, which assigns into the
  shared dictionary at address 3, \<open>adas.wavelength(carbon, 5, (8, 7))\<close> returns 1.0 where
  it returned 529.1 before. Only an assignment at the top level of the copy leaves the
  query unchanged.
\<close>

theorem config_copy_shares_nested_dicts:
  "self_config example_adas = 31 \<and>
   fst (config example_heap example_adas) = 32 \<and>
   subscripts (snd (config example_heap example_adas)) (VDict 32)
     [KStr ''wavelength'', KSpecies (Elem carbon), KInt 5] = Inr (VDict 3) \<and>
   wavelength example_externals (snd (config example_heap example_adas)) example_adas
     (Elem carbon) 5 (KTuple [KInt 8, KInt 7]) = Inr (VFloat 529.1) \<and>
   wavelength example_externals
     (dict_setitem (snd (config example_heap example_adas)) 3
        (KTuple [KInt 8, KInt 7]) (VFloat 1))
     example_adas (Elem carbon) 5 (KTuple [KInt 8, KInt 7]) = Inr (VFloat 1) \<and>
   wavelength example_externals
     (dict_setitem (snd (config example_heap example_adas)) 32 (KStr ''wavelength'') (VDict 12))
     example_adas (Elem carbon) 5 (KTuple [KInt 8, KInt 7]) = Inr (VFloat 529.1)"
  by (simp add: example_eval config_def dict_setitem_def)

subsection \<open>Normalisation of Isotopes\<close>

text \<open>
  C7. The claim that an Isotope resolves exactly as its parent Element fails for
  \<open>impact_excitation_rate\<close> and \<open>recombination_rate\<close>, which pass the Isotope itself to
  \<open>wavelength\<close> before normalising it. With an isotope-level wavelength entry (656.1 for
  deuterium, 656.28 for hydrogen) the two rate objects differ in their wavelength; with
  no wavelength entry at either level the two errors differ in the symbol they name.
\<close>

theorem isotope_rate_differs_counterexample:
  "impact_excitation_rate example_externals example_heap example_adas deuterium 0
       (KTuple [KInt 3, KInt 2])
     = Inr (ImpactExcitationRate (VFloat 656.1) ''adf15 /data/exch.dat'' False) \<and>
   impact_excitation_rate example_externals example_heap example_adas (Elem hydrogen) 0
       (KTuple [KInt 3, KInt 2])
     = Inr (ImpactExcitationRate (VFloat 656.28) ''adf15 /data/exch.dat'' False) \<and>
   impact_excitation_rate example_externals example_heap example_adas deuterium 0
       (KTuple [KInt 3, KInt 2])
     \<noteq> impact_excitation_rate example_externals example_heap example_adas
         (Elem (isotope_element deuterium)) 0 (KTuple [KInt 3, KInt 2]) \<and>
   recombination_rate example_externals example_heap example_adas carbon12 4
       (KTuple [KInt 8, KInt 7])
     = Inl (RuntimeError
         [VStr ''The requested wavelength data for (C12, 4, (8, 7)) is not available.'']) \<and>
   recombination_rate example_externals example_heap example_adas (Elem carbon) 4
       (KTuple [KInt 8, KInt 7])
     = Inl (RuntimeError
         [VStr ''The requested wavelength data for (C, 4, (8, 7)) is not available.'']) \<and>
   recombination_rate example_externals example_heap example_adas carbon12 4
       (KTuple [KInt 8, KInt 7])
     \<noteq> recombination_rate example_externals example_heap example_adas
         (Elem (isotope_element carbon12)) 4 (KTuple [KInt 8, KInt 7])"
  by (simp add: example_eval impact_excitation_rate_def recombination_rate_def)

text \<open>
  C7, as amended. \<open>beam_stopping_rate\<close> and \<open>beam_population_rate\<close> give the same result
  for a species as for its parent Element, in either species argument.
  \<open>impact_excitation_rate\<close> and \<open>recombination_rate\<close> give the same result for an Isotope
  as for its parent Element whenever the configuration has no isotope-level wavelength
  entry for the query and has an Element-level one.
\<close>

theorem isotope_resolves_as_element:
  "beam_stopping_rate X h self beam plasma i
     = beam_stopping_rate X h self (extract_element beam) (extract_element plasma) i \<and>
   beam_population_rate X h self beam ms plasma i
     = beam_population_rate X h self (extract_element beam) ms (extract_element plasma) i \<and>
   (config_lookup h self [KStr ''wavelength'', KSpecies (Isotope s e m), KInt i, t] = Inl KeyError \<and>
    config_lookup h self [KStr ''wavelength'', KSpecies (Elem e), KInt i, t] = Inr w
      \<longrightarrow> impact_excitation_rate X h self (Isotope s e m) i t
            = impact_excitation_rate X h self (Elem e) i t \<and>
          recombination_rate X h self (Isotope s e m) i t
            = recombination_rate X h self (Elem e) i t)"
proof (intro conjI impI; (elim conjE)?)
  assume a: "config_lookup h self [KStr ''wavelength'', KSpecies (Isotope s e m), KInt i, t] = Inl KeyError"
    "config_lookup h self [KStr ''wavelength'', KSpecies (Elem e), KInt i, t] = Inr w"
  have w: "wavelength X h self (Isotope s e m) i t
      = wavelength X h self (extract_element (Isotope s e m)) i t"
    using wavelength_fallback_same [OF a] by simp
  show "impact_excitation_rate X h self (Isotope s e m) i t
      = impact_excitation_rate X h self (Elem e) i t"
    using impact_excitation_rate_same [OF w] by simp
  show "recombination_rate X h self (Isotope s e m) i t
      = recombination_rate X h self (Elem e) i t"
    using recombination_rate_same [OF w] by simp
qed (rule beam_stopping_rate_normalised beam_population_rate_normalised)+

theorem isotope_resolves_as_element_witness:
  "beam_stopping_rate example_externals example_heap example_adas deuterium carbon12 6
     = beam_stopping_rate example_externals example_heap example_adas
         (Elem hydrogen) (Elem carbon) 6 \<and>
   beam_stopping_rate example_externals example_heap example_adas deuterium carbon12 6
     = Inr (BeamStoppingRate ''adf21 /data/bms.dat'' False) \<and>
   beam_population_rate example_externals example_heap example_adas deuterium (KInt 2) carbon12 6
     = beam_population_rate example_externals example_heap example_adas
         (Elem hydrogen) (KInt 2) (Elem carbon) 6 \<and>
   impact_excitation_rate example_externals example_heap example_adas carbon12 5
       (KTuple [KInt 8, KInt 7])
     = impact_excitation_rate example_externals example_heap example_adas (Elem carbon) 5
         (KTuple [KInt 8, KInt 7]) \<and>
   impact_excitation_rate example_externals example_heap example_adas carbon12 5
       (KTuple [KInt 8, KInt 7])
     = Inr (ImpactExcitationRate (VFloat 529.1) ''adf15 /data/exc.dat'' False) \<and>
   recombination_rate example_externals example_heap example_adas carbon12 5
       (KTuple [KInt 8, KInt 7])
     = recombination_rate example_externals example_heap example_adas (Elem carbon) 5
         (KTuple [KInt 8, KInt 7]) \<and>
   recombination_rate example_externals example_heap example_adas carbon12 5
       (KTuple [KInt 8, KInt 7])
     = Inr (RecombinationRate (VFloat 529.1) ''adf15 /data/rec.dat'' False)"
proof -
  let ?X = example_externals and ?h = example_heap and ?a = example_adas
  let ?t = "KTuple [KInt 8, KInt 7]"
  note th = isotope_resolves_as_element
  note c1 = th [THEN conjunct1]
    and c2 = th [THEN conjunct2, THEN conjunct1]
    and c3 = th [THEN conjunct2, THEN conjunct2, THEN mp, OF conjI]
  have n: "extract_element deuterium = Elem hydrogen" "extract_element carbon12 = Elem carbon"
    by (simp_all add: deuterium_def carbon12_def)
  have miss: "config_lookup ?h ?a
      [KStr ''wavelength'', KSpecies (Isotope ''C12'' carbon 12), KInt 5, ?t] = Inl KeyError"
    and el: "config_lookup ?h ?a
      [KStr ''wavelength'', KSpecies (Elem carbon), KInt 5, ?t] = Inr (VFloat 529.1)"
    by (simp_all add: example_defs)
  have 1: "beam_stopping_rate ?X ?h ?a deuterium carbon12 6
      = beam_stopping_rate ?X ?h ?a (Elem hydrogen) (Elem carbon) 6"
    using c1 [of ?X ?h ?a deuterium carbon12 6] by (simp only: n)
  have 2: "beam_population_rate ?X ?h ?a deuterium (KInt 2) carbon12 6
      = beam_population_rate ?X ?h ?a (Elem hydrogen) (KInt 2) (Elem carbon) 6"
    using c2 [of ?X ?h ?a deuterium "KInt 2" carbon12 6] by (simp only: n)
  have 3: "impact_excitation_rate ?X ?h ?a carbon12 5 ?t
      = impact_excitation_rate ?X ?h ?a (Elem carbon) 5 ?t"
    "recombination_rate ?X ?h ?a carbon12 5 ?t
      = recombination_rate ?X ?h ?a (Elem carbon) 5 ?t"
    using c3 [OF miss el, of ?X] by (simp_all add: carbon12_def)
  have 4: "beam_stopping_rate ?X ?h ?a (Elem hydrogen) (Elem carbon) 6
      = Inr (BeamStoppingRate ''adf21 /data/bms.dat'' False)"
    "impact_excitation_rate ?X ?h ?a (Elem carbon) 5 ?t
      = Inr (ImpactExcitationRate (VFloat 529.1) ''adf15 /data/exc.dat'' False)"
    "recombination_rate ?X ?h ?a (Elem carbon) 5 ?t
      = Inr (RecombinationRate (VFloat 529.1) ''adf15 /data/rec.dat'' False)"
    by (simp_all add: example_eval beam_stopping_rate_def impact_excitation_rate_def
        recombination_rate_def)
  from 1 2 3 4 show ?thesis by simp
qed

subsection \<open>Beam emission and beam population\<close>

text \<open>
  C8. \<open>beam_emission_rate\<close> first calls \<open>wavelength\<close> with the beam species as given, at
  stage 0, and an exception of that call is the exception of the whole call. Afterwards
  both species are normalised for the lookup \<open>bme[beam][plasma][ionisation][transition]\<close>:
  a file name found there gives the rate object built from the file and the resolved
  wavelength, a miss raises the method's error. Because the beam species reaches
  \<open>wavelength\<close> un-normalised, an isotope-level wavelength entry of a beam Isotope is the
  wavelength of the returned rate object.
\<close>

theorem beam_emission_rate_wavelength_then_lookup:
  "(wavelength X h self beam 0 t = Inl e
      \<longrightarrow> beam_emission_rate X h self beam plasma i t = Inl e) \<and>
   (wavelength X h self beam 0 t = Inr wl \<and>
    config_lookup h self
      [KStr ''bme'', KSpecies (extract_element beam), KSpecies (extract_element plasma), KInt i, t]
      = Inr (VStr f) \<and>
    adf22 X (posix_join (self_data_path self) f) = Inr d
      \<longrightarrow> beam_emission_rate X h self beam plasma i t
            = Inr (BeamEmissionRate d wl (self_permit_extrapolation self))) \<and>
   (wavelength X h self beam 0 t = Inr wl \<and>
    config_lookup h self
      [KStr ''bme'', KSpecies (extract_element beam), KSpecies (extract_element plasma), KInt i, t]
      = Inl KeyError
      \<longrightarrow> beam_emission_rate X h self beam plasma i t
            = Inl (beam_emission_rate_error X (extract_element beam) (extract_element plasma) i t)) \<and>
   (config_lookup h self [KStr ''wavelength'', KSpecies (Isotope s el m), KInt 0, t] = Inr w \<and>
    beam_emission_rate X h self (Isotope s el m) plasma i t = Inr r
      \<longrightarrow> rate_wavelength r = w)"
proof (intro conjI impI; (elim conjE)?)
  assume "config_lookup h self [KStr ''wavelength'', KSpecies (Isotope s el m), KInt 0, t] = Inr w"
    and r: "beam_emission_rate X h self (Isotope s el m) plasma i t = Inr r"
  then have "wavelength X h self (Isotope s el m) 0 t = Inr w"
    by (simp add: wavelength_def)
  from beam_emission_rate_carries_wavelength [OF this r] show "rate_wavelength r = w" .
qed (simp_all only: beam_emission_rate_wavelength_fails beam_emission_rate_found
      beam_emission_rate_miss)

theorem beam_emission_rate_wavelength_then_lookup_witness:
  "beam_emission_rate example_externals example_heap example_adas deuterium carbon12 6
       (KTuple [KInt 4, KInt 2])
     = Inl (RuntimeError
         [VStr ''The requested wavelength data for (D, 0, (4, 2)) is not available.'']) \<and>
   config_lookup example_heap example_adas
     [KStr ''wavelength'', KSpecies deuterium, KInt 0, KTuple [KInt 3, KInt 2]]
     = Inr (VFloat 656.1) \<and>
   config_lookup example_heap example_adas
     [KStr ''wavelength'', KSpecies (Elem hydrogen), KInt 0, KTuple [KInt 3, KInt 2]]
     = Inr (VFloat 656.28) \<and>
   beam_emission_rate example_externals example_heap example_adas deuterium carbon12 6
       (KTuple [KInt 3, KInt 2])
     = Inr (BeamEmissionRate ''adf22 /data/bme.dat'' (VFloat 656.1) False) \<and>
   rate_wavelength (BeamEmissionRate ''adf22 /data/bme.dat'' (VFloat 656.1) False)
     = VFloat 656.1 \<and>
   beam_emission_rate example_externals example_heap example_adas deuterium carbon12 5
       (KTuple [KInt 3, KInt 2])
     = Inl (RuntimeError
         [VStr ''The requested beam emission rate data does not have an entry in the Open-ADAS configuration (beam ion: H, plasma ion: C, ionisation: 5, transition: (3, 2)).''])"
proof -
  let ?X = example_externals and ?h = example_heap and ?a = example_adas
  let ?u = "KTuple [KInt 3, KInt 2]" and ?v = "KTuple [KInt 4, KInt 2]"
  let ?D = "Isotope ''D'' hydrogen 2"
  let ?r = "BeamEmissionRate ''adf22 /data/bme.dat'' (VFloat 656.1) False"
  note th = beam_emission_rate_wavelength_then_lookup
  note c1 = th [THEN conjunct1, THEN mp]
    and c2 = th [THEN conjunct2, THEN conjunct1, THEN mp, OF conjI, OF _ conjI]
    and c3 = th [THEN conjunct2, THEN conjunct2, THEN conjunct1, THEN mp, OF conjI]
    and c4 = th [THEN conjunct2, THEN conjunct2, THEN conjunct2, THEN mp, OF conjI]
  have D: "deuterium = ?D" by (simp add: deuterium_def)
  have w_fail: "wavelength ?X ?h ?a deuterium 0 ?v
      = Inl (RuntimeError
          [VStr ''The requested wavelength data for (D, 0, (4, 2)) is not available.''])"
    and w_ok: "wavelength ?X ?h ?a deuterium 0 ?u = Inr (VFloat 656.1)"
    by (simp_all add: example_eval)
  have iso: "config_lookup ?h ?a [KStr ''wavelength'', KSpecies ?D, KInt 0, ?u]
      = Inr (VFloat 656.1)"
    and el: "config_lookup ?h ?a [KStr ''wavelength'', KSpecies (Elem hydrogen), KInt 0, ?u]
      = Inr (VFloat 656.28)"
    and hit: "config_lookup ?h ?a
      [KStr ''bme'', KSpecies (extract_element deuterium), KSpecies (extract_element carbon12),
       KInt 6, ?u] = Inr (VStr ''bme.dat'')"
    and rd: "adf22 ?X (posix_join (self_data_path ?a) ''bme.dat'') = Inr ''adf22 /data/bme.dat''"
    and miss: "config_lookup ?h ?a
      [KStr ''bme'', KSpecies (extract_element deuterium), KSpecies (extract_element carbon12),
       KInt 5, ?u] = Inl KeyError"
    and ext: "self_permit_extrapolation ?a = False"
    by (simp_all add: example_eval)
  have 1: "beam_emission_rate ?X ?h ?a deuterium carbon12 6 ?v
      = Inl (RuntimeError
          [VStr ''The requested wavelength data for (D, 0, (4, 2)) is not available.''])"
    by (rule c1 [OF w_fail])
  have 2: "beam_emission_rate ?X ?h ?a deuterium carbon12 6 ?u
      = Inr (BeamEmissionRate ''adf22 /data/bme.dat'' (VFloat 656.1)
               (self_permit_extrapolation ?a))"
    by (rule c2 [OF w_ok hit rd])
  then have 2: "beam_emission_rate ?X ?h ?a deuterium carbon12 6 ?u = Inr ?r"
    by (simp only: ext)
  have 3: "beam_emission_rate ?X ?h ?a deuterium carbon12 5 ?u
      = Inl (beam_emission_rate_error ?X (extract_element deuterium)
               (extract_element carbon12) 5 ?u)"
    by (rule c3 [OF w_ok miss])
  have 4: "rate_wavelength ?r = VFloat 656.1"
    by (rule c4 [OF iso 2 [unfolded D]])
  have 5: "beam_emission_rate_error ?X (extract_element deuterium) (extract_element carbon12) 5 ?u
      = RuntimeError
         [VStr ''The requested beam emission rate data does not have an entry in the Open-ADAS configuration (beam ion: H, plasma ion: C, ionisation: 5, transition: (3, 2)).'']"
    by (simp add: beam_emission_rate_error_def example_externals_def example_str_def str_int_def
        hydrogen_def carbon_def deuterium_def carbon12_def)
  from 1 iso [folded D] el 2 4 3 [unfolded 5] show ?thesis by simp
qed

text \<open>
  C9. \<open>beam_population_rate\<close> normalises both species whatever the configuration holds
  (the result is that of the call with the parent Elements), uses the metastable level as
  a key as it is, and looks up \<open>bmp[beam][metastable][plasma][ionisation]\<close> in this order:
  a file name found there gives the rate object of that file, and a miss raises a
  \<open>RuntimeError\<close> whose message names the beam symbol, the metastable level, the plasma
  symbol and the ionisation stage.
\<close>

theorem beam_population_rate_lookup:
  "beam_population_rate X h self beam ms plasma i
     = beam_population_rate X h self (extract_element beam) ms (extract_element plasma) i \<and>
   (config_lookup h self
      [KStr ''bmp'', KSpecies (extract_element beam), ms, KSpecies (extract_element plasma), KInt i]
      = Inr (VStr f) \<and>
    adf22 X (posix_join (self_data_path self) f) = Inr d
      \<longrightarrow> beam_population_rate X h self beam ms plasma i
            = Inr (BeamPopulationRate d (self_permit_extrapolation self))) \<and>
   (config_lookup h self
      [KStr ''bmp'', KSpecies (extract_element beam), ms, KSpecies (extract_element plasma), KInt i]
      = Inl KeyError
      \<longrightarrow> beam_population_rate X h self beam ms plasma i
            = Inl (RuntimeError [VStr (py_format
                (''The requested beam population rate data does not have an entry in the '' @
                 ''Open-ADAS configuration (beam ion: {}, metastable: {}, plasma ion: {}, ionisation: {}).'')
                [symbol (extract_element beam), str_of X ms, symbol (extract_element plasma),
                 str_of X (KInt i)])]))"
proof (intro conjI impI; (elim conjE)?)
  show "beam_population_rate X h self beam ms plasma i
     = beam_population_rate X h self (extract_element beam) ms (extract_element plasma) i"
    by (rule beam_population_rate_normalised)
qed (simp_all only: beam_population_rate_found
      beam_population_rate_miss [unfolded beam_population_rate_error_def])

theorem beam_population_rate_lookup_witness:
  "beam_population_rate example_externals example_heap example_adas deuterium (KInt 2) carbon12 6
     = beam_population_rate example_externals example_heap example_adas
         (Elem hydrogen) (KInt 2) (Elem carbon) 6 \<and>
   beam_population_rate example_externals example_heap example_adas deuterium (KInt 2) carbon12 6
     = Inr (BeamPopulationRate ''adf22 /data/bmp.dat'' False) \<and>
   config_lookup example_heap example_adas
     [KStr ''bmp'', KSpecies (Elem hydrogen), KSpecies (Elem carbon), KInt 2, KInt 6]
     = Inl KeyError \<and>
   beam_population_rate example_externals example_heap example_adas deuterium (KInt 3) carbon12 6
     = Inl (RuntimeError
         [VStr ''The requested beam population rate data does not have an entry in the Open-ADAS configuration (beam ion: H, metastable: 3, plasma ion: C, ionisation: 6).''])"
proof -
  let ?X = example_externals and ?h = example_heap and ?a = example_adas
  note c1 = beam_population_rate_lookup [THEN conjunct1]
    and c2 = beam_population_rate_lookup [THEN conjunct2, THEN conjunct1, THEN mp, OF conjI]
    and c3 = beam_population_rate_lookup [THEN conjunct2, THEN conjunct2, THEN mp]
  have hit: "config_lookup ?h ?a
      [KStr ''bmp'', KSpecies (extract_element deuterium), KInt 2,
       KSpecies (extract_element carbon12), KInt 6] = Inr (VStr ''bmp.dat'')"
    and rd: "adf22 ?X (posix_join (self_data_path ?a) ''bmp.dat'') = Inr ''adf22 /data/bmp.dat''"
    and miss: "config_lookup ?h ?a
      [KStr ''bmp'', KSpecies (extract_element deuterium), KInt 3,
       KSpecies (extract_element carbon12), KInt 6] = Inl KeyError"
    and order: "config_lookup ?h ?a
      [KStr ''bmp'', KSpecies (Elem hydrogen), KSpecies (Elem carbon), KInt 2, KInt 6]
      = Inl KeyError"
    by (simp_all add: example_eval)
  have 1: "beam_population_rate ?X ?h ?a deuterium (KInt 2) carbon12 6
     = beam_population_rate ?X ?h ?a (extract_element deuterium) (KInt 2)
         (extract_element carbon12) 6"
    by (rule c1)
  have 2: "beam_population_rate ?X ?h ?a deuterium (KInt 2) carbon12 6
     = Inr (BeamPopulationRate ''adf22 /data/bmp.dat'' (self_permit_extrapolation ?a))"
    by (rule c2 [OF hit rd])
  have 3: "beam_population_rate ?X ?h ?a deuterium (KInt 3) carbon12 6
     = Inl (RuntimeError [VStr (py_format
                (''The requested beam population rate data does not have an entry in the '' @
                 ''Open-ADAS configuration (beam ion: {}, metastable: {}, plasma ion: {}, ionisation: {}).'')
                [symbol (extract_element deuterium), str_of ?X (KInt 3),
                 symbol (extract_element carbon12), str_of ?X (KInt 6)])])"
    by (rule c3 [OF miss])
  have 4: "extract_element deuterium = Elem hydrogen" "extract_element carbon12 = Elem carbon"
    "self_permit_extrapolation ?a = False"
    by (simp_all add: example_defs)
  have 5: "py_format
                (''The requested beam population rate data does not have an entry in the '' @
                 ''Open-ADAS configuration (beam ion: {}, metastable: {}, plasma ion: {}, ionisation: {}).'')
                [symbol (Elem hydrogen), str_of ?X (KInt 3),
                 symbol (Elem carbon), str_of ?X (KInt 6)]
     = ''The requested beam population rate data does not have an entry in the Open-ADAS configuration (beam ion: H, metastable: 3, plasma ion: C, ionisation: 6).''"
    by (simp add: example_externals_def example_str_def str_int_def hydrogen_def carbon_def)
  from 1 2 3 order show ?thesis unfolding 4 5 by simp
qed

end
